theory Spec2Isabelle
  imports Complex_Main "HOL-Library.Log_Nat"
begin

section \<open>JavaScript numbers\<close>

text \<open>
  The dashboard and the server actions compute with JavaScript numbers, which are IEEE 754
  binary64 values. A finite number is modelled by the rational it denotes. Every
  arithmetic operation rounds its exact result to the nearest binary64 value, ties to the
  even significand: \<open>fl\<close> is that rounding, with 53 significant bits for a magnitude of
  at least \<open>2 ^ -1022\<close> and with the fixed step \<open>2 ^ -1074\<close> of the subnormal numbers
  below it. An exact result whose magnitude reaches \<open>2 ^ 1024 - 2 ^ 970\<close> rounds to an
  infinity (\<open>to_double\<close>).
\<close>

definition pow2 :: "int \<Rightarrow> rat" where
  "pow2 k = (if 0 \<le> k then 2 ^ nat k else 1 / 2 ^ nat (- k))"

text \<open>Round to the nearest integer, a tie to the even one.\<close>

definition rne :: "rat \<Rightarrow> int" where
  "rne x = (let f = \<lfloor>x\<rfloor>; r = x - of_int f in
     if r < 1 / 2 then f else if 1 / 2 < r then f + 1 else if even f then f else f + 1)"

text \<open>The binary exponent of a positive rational: \<open>2 ^ ilog2 x \<le> x < 2 ^ (ilog2 x + 1)\<close>.\<close>

definition ilog2 :: "rat \<Rightarrow> int" where
  "ilog2 x = (case quotient_of x of (p, q) \<Rightarrow>
     let d = bitlen p - bitlen q in if pow2 d \<le> x then d else d - 1)"

definition fl :: "rat \<Rightarrow> rat" where
  "fl x = (if x = 0 then 0
     else let k = min (52 - ilog2 \<bar>x\<bar>) 1074 in of_int (rne (x * pow2 k)) / pow2 k)"

text \<open>A decimal literal of the source, such as \<open>0.8\<close>, denotes the nearest binary64 value.\<close>

definition lit :: "rat \<Rightarrow> rat" where
  "lit r = fl r"

text \<open>
  The operations where both operands are finite and the result cannot reach the overflow
  threshold: counts, sums of counts, differences of timestamps and what is computed from
  them. A division by zero does not give a finite number (JavaScript gives \<open>NaN\<close> or an
  infinity): \<open>js_div\<close> returns \<open>None\<close> there.
\<close>

definition js_add :: "rat \<Rightarrow> rat \<Rightarrow> rat" where
  "js_add x y = fl (x + y)"

definition js_sub :: "rat \<Rightarrow> rat \<Rightarrow> rat" where
  "js_sub x y = fl (x - y)"

definition js_mul :: "rat \<Rightarrow> rat \<Rightarrow> rat" where
  "js_mul x y = fl (x * y)"

definition js_div :: "rat \<Rightarrow> rat \<Rightarrow> rat option" where
  "js_div x y = (if y = 0 then None else Some (fl (x / y)))"

text \<open>\<open>Math.round\<close>: the nearest integer, a tie going up.\<close>

definition js_round :: "rat \<Rightarrow> int" where
  "js_round x = \<lfloor>x + 1 / 2\<rfloor>"

text \<open>
  The full range of a number, for a quantity that can be any number: finite, an infinity
  or \<open>NaN\<close>. The model has one zero, the positive one; the expressions that use these
  operations below never produce the negative zero.
\<close>

datatype jsnum = Fin rat | PosInf | NegInf | NaN

definition max_double :: rat where
  "max_double = 2 ^ 1024 - 2 ^ 971"

definition overflow_threshold :: rat where
  "overflow_threshold = 2 ^ 1024 - 2 ^ 970"

definition to_double :: "rat \<Rightarrow> jsnum" where
  "to_double x =
     (if overflow_threshold \<le> x then PosInf
      else if x \<le> - overflow_threshold then NegInf
      else Fin (fl x))"

text \<open>The comparison \<open>x > 0\<close>.\<close>

fun num_pos :: "jsnum \<Rightarrow> bool" where
  "num_pos (Fin a) = (0 < a)"
| "num_pos PosInf = True"
| "num_pos NegInf = False"
| "num_pos NaN = False"

fun num_mul :: "jsnum \<Rightarrow> jsnum \<Rightarrow> jsnum" where
  "num_mul (Fin a) (Fin b) = to_double (a * b)"
| "num_mul (Fin a) PosInf = (if a = 0 then NaN else if 0 < a then PosInf else NegInf)"
| "num_mul (Fin a) NegInf = (if a = 0 then NaN else if 0 < a then NegInf else PosInf)"
| "num_mul PosInf (Fin b) = (if b = 0 then NaN else if 0 < b then PosInf else NegInf)"
| "num_mul NegInf (Fin b) = (if b = 0 then NaN else if 0 < b then NegInf else PosInf)"
| "num_mul PosInf PosInf = PosInf"
| "num_mul PosInf NegInf = NegInf"
| "num_mul NegInf PosInf = NegInf"
| "num_mul NegInf NegInf = PosInf"
| "num_mul NaN y = NaN"
| "num_mul x NaN = NaN"

fun num_sub :: "jsnum \<Rightarrow> jsnum \<Rightarrow> jsnum" where
  "num_sub (Fin a) (Fin b) = to_double (a - b)"
| "num_sub (Fin a) PosInf = NegInf"
| "num_sub (Fin a) NegInf = PosInf"
| "num_sub PosInf (Fin b) = PosInf"
| "num_sub NegInf (Fin b) = NegInf"
| "num_sub PosInf PosInf = NaN"
| "num_sub PosInf NegInf = PosInf"
| "num_sub NegInf PosInf = NegInf"
| "num_sub NegInf NegInf = NaN"
| "num_sub NaN y = NaN"
| "num_sub x NaN = NaN"

fun num_div :: "jsnum \<Rightarrow> jsnum \<Rightarrow> jsnum" where
  "num_div (Fin a) (Fin b) =
     (if b = 0 then (if a = 0 then NaN else if 0 < a then PosInf else NegInf)
      else to_double (a / b))"
| "num_div (Fin a) PosInf = Fin 0"
| "num_div (Fin a) NegInf = Fin 0"
| "num_div PosInf (Fin b) = (if 0 \<le> b then PosInf else NegInf)"
| "num_div NegInf (Fin b) = (if 0 \<le> b then NegInf else PosInf)"
| "num_div PosInf PosInf = NaN"
| "num_div PosInf NegInf = NaN"
| "num_div NegInf PosInf = NaN"
| "num_div NegInf NegInf = NaN"
| "num_div NaN y = NaN"
| "num_div x NaN = NaN"

text \<open>\<open>Math.round\<close> on any number: an infinity and \<open>NaN\<close> are returned as they are.\<close>

fun num_round :: "jsnum \<Rightarrow> jsnum" where
  "num_round (Fin a) = Fin (of_int (js_round a))"
| "num_round PosInf = PosInf"
| "num_round NegInf = NegInf"
| "num_round NaN = NaN"

section \<open>The analytics dashboard\<close>

text \<open>
  \<open>loadAnalytics\<close> ends by building the summary from the rows it has filtered. The four
  expressions below are the \<open>growth\<close>, \<open>completionRate\<close> and \<open>disputeRate\<close> fields of that
  summary, as functions of the quantities they read: \<open>monthlyRevenue\<close> (a sum of prize
  pools: any number, an infinity when the sum overflows), \<open>newPlayersThisMonth\<close> (a
  length), the filtered tournaments, the disputes and the filtered matches. For the
  expressions on counts, a result \<open>None\<close> would be a non-finite number.
\<close>

record tournament =
  t_status :: string
  t_format :: string

definition revenue_growth :: "jsnum \<Rightarrow> jsnum" where
  "revenue_growth monthlyRevenue =
     (if num_pos monthlyRevenue
      then num_round
             (num_mul
                (num_div (num_sub monthlyRevenue (num_mul monthlyRevenue (Fin (lit (8 / 10)))))
                         (num_mul monthlyRevenue (Fin (lit (8 / 10)))))
                (Fin 100))
      else Fin 0)"

definition players_growth :: "nat \<Rightarrow> int option" where
  "players_growth newPlayersThisMonth =
     (if 0 < newPlayersThisMonth
      then map_option (\<lambda>q. js_round (js_mul q 100))
             (js_div (js_sub (of_nat newPlayersThisMonth)
                        (js_mul (of_nat newPlayersThisMonth) (lit (7 / 10))))
                     (js_mul (of_nat newPlayersThisMonth) (lit (7 / 10))))
      else Some 0)"

definition completedTournaments :: "tournament list \<Rightarrow> nat" where
  "completedTournaments filteredTournaments =
     length (filter (\<lambda>t. t_status t = ''completed'') filteredTournaments)"

definition completionRate :: "tournament list \<Rightarrow> int option" where
  "completionRate filteredTournaments =
     (if 0 < length filteredTournaments
      then map_option (\<lambda>q. js_round (js_mul q 100))
             (js_div (of_nat (completedTournaments filteredTournaments))
                     (of_nat (length filteredTournaments)))
      else Some 0)"

definition disputeRate :: "'d list \<Rightarrow> 'm list \<Rightarrow> int option" where
  "disputeRate disputes filteredMatches =
     (if 0 < length filteredMatches
      then map_option (\<lambda>q. js_round (js_mul q 100))
             (js_div (of_nat (length disputes)) (of_nat (length filteredMatches)))
      else Some 0)"

text \<open>
  The two readings of a percentage. \<open>pct\<close> is what the code writes,
  \<open>Math.round((numerator / denominator) * 100)\<close>: the quotient is rounded to a number
  before it is multiplied. \<open>claimed_pct\<close> follows the specification's words,
  \<open>Math.round(100 * numerator / denominator)\<close>: the product is formed first.
\<close>

definition pct :: "rat \<Rightarrow> rat \<Rightarrow> int" where
  "pct numerator denominator = js_round (fl (fl (numerator / denominator) * 100))"

definition claimed_pct :: "rat \<Rightarrow> rat \<Rightarrow> int" where
  "claimed_pct numerator denominator = js_round (fl (fl (100 * numerator) / denominator))"

section \<open>Objects and their inherited properties\<close>

text \<open>
  An object literal of the source has the properties it lists and inherits those of
  \<open>Object.prototype\<close>. The property read \<open>obj[key]\<close> finds an own property first and an
  inherited one otherwise; a key that is neither gives \<open>undefined\<close> (\<open>None\<close>). The names
  below are the members of \<open>Object.prototype\<close> in the language standard (with its
  annex for web browsers); an inherited value is a function or an object, never a text.
\<close>

definition object_prototype_keys :: "string list" where
  "object_prototype_keys =
     [''constructor'', ''hasOwnProperty'', ''isPrototypeOf'', ''propertyIsEnumerable'',
      ''toLocaleString'', ''toString'', ''valueOf'', ''__proto__'',
      ''__defineGetter__'', ''__defineSetter__'', ''__lookupGetter__'', ''__lookupSetter__'']"

datatype 'v jsprop = Own 'v | Inherited string

definition js_get :: "(string \<rightharpoonup> 'v) \<Rightarrow> string \<Rightarrow> 'v jsprop option" where
  "js_get obj key =
     (case obj key of
        Some v \<Rightarrow> Some (Own v)
      | None \<Rightarrow> if key \<in> set object_prototype_keys then Some (Inherited key) else None)"

section \<open>The tournament header\<close>

text \<open>
  \<open>TournamentHeader\<close> picks the class of the status badge and of the format badge from two
  object literals, by the reads \<open>statusColors[tournament.status]\<close> and
  \<open>formatColors[tournament.format]\<close>. The two definitions are the literals (their own
  properties); \<open>status_badge\<close> and \<open>format_badge\<close> are the reads.
\<close>

definition statusColors :: "string \<rightharpoonup> string" where
  "statusColors = map_of
     [(''registration'', ''bg-blue-500''),
      (''ongoing'', ''bg-[#00FF88]''),
      (''paused'', ''bg-yellow-500''),
      (''completed'', ''bg-gray-500''),
      (''cancelled'', ''bg-red-500'')]"

definition formatColors :: "string \<rightharpoonup> string" where
  "formatColors = map_of
     [(''single_elimination'', ''bg-[#FFB800]''),
      (''double_elimination'', ''bg-purple-500'')]"

definition status_badge :: "tournament \<Rightarrow> string jsprop option" where
  "status_badge t = js_get statusColors (t_status t)"

definition format_badge :: "tournament \<Rightarrow> string jsprop option" where
  "format_badge t = js_get formatColors (t_format t)"

section \<open>What a server action sees and does\<close>

text \<open>
  A server action is a function of the signed-in user (\<open>getCurrentUser\<close>, \<open>None\<close> when
  nobody is signed in), of its arguments, of the clock where it reads it, and of the
  response to each database request it awaits, in the order of the source. The database
  client types a response as a failure (an error with a message and a code, no data and
  no count) or a success (the data, and the count when one was asked for). An action that
  returns before a request is sent does not look at that response.

  The result is the object the action returns (\<open>error\<close>, and \<open>data\<close> where the object has
  that field), together with what it did: the write requests it sent to the database, in
  order, whether or not the database accepted them, and the paths it revalidated.
\<close>

record pg_error =
  pg_message :: string
  pg_code :: string

datatype 'r response = Failure pg_error | Success 'r "nat option"

fun rerror :: "'r response \<Rightarrow> pg_error option" where
  "rerror (Failure e) = Some e"
| "rerror (Success d c) = None"

fun rdata :: "'r response \<Rightarrow> 'r option" where
  "rdata (Failure e) = None"
| "rdata (Success d c) = Some d"

fun rcount :: "'r response \<Rightarrow> nat option" where
  "rcount (Failure e) = None"
| "rcount (Success d c) = c"

record user =
  u_id :: string
  u_role :: string

text \<open>The guard \<open>!user || user.role !== 'admin'\<close> is \<open>\<not> is_admin user\<close>.\<close>

definition is_admin :: "user option \<Rightarrow> bool" where
  "is_admin user = (case user of None \<Rightarrow> False | Some u \<Rightarrow> u_role u = ''admin'')"

text \<open>\<open>count || 0\<close> and \<open>text || fallback\<close>: \<open>null\<close>, \<open>0\<close> and the empty text are falsy.\<close>

definition or0 :: "nat option \<Rightarrow> nat" where
  "or0 count = (case count of None \<Rightarrow> 0 | Some n \<Rightarrow> n)"

definition or_text :: "string option \<Rightarrow> string \<Rightarrow> string" where
  "or_text s fallback = (case s of None \<Rightarrow> fallback | Some t \<Rightarrow> if t = [] then fallback else t)"

definition truthy :: "string option \<Rightarrow> bool" where
  "truthy s = (case s of None \<Rightarrow> False | Some t \<Rightarrow> t \<noteq> [])"

datatype jsval =
    JStr string
  | JBool bool
  | JNum rat
  | JArr "jsval list"
  | JObj "(string \<times> jsval) list"

datatype announcement_type = Ty_general | Ty_tournament | Ty_maintenance | Ty_urgent

datatype announcement_target = Tg_all | Tg_active | Tg_tournament | Tg_specific

record announcement_input =
  in_title :: string
  in_content :: string
  in_type :: announcement_type
  in_target :: announcement_target
  in_scheduled_at :: "string option"

record announcement_row =
  title :: string
  content :: string
  type_of_row :: announcement_type
  target :: announcement_target
  status :: string
  sent_at :: "string option"
  scheduled_at :: "string option"
  recipients :: nat
  opened :: nat
  clicked :: nat
  created_by :: string

record announcement_stats =
  st_opened :: "int option"
  st_clicked :: "int option"

datatype message_status = Unread | Read | Replied

fun status_text :: "message_status \<Rightarrow> string" where
  "status_text Unread = ''unread''"
| "status_text Read = ''read''"
| "status_text Replied = ''replied''"

datatype priority = P_low | P_medium | P_high | P_urgent

record message_input =
  mi_subject :: string
  mi_content :: string
  mi_priority :: "priority option"

record message_row =
  mr_user_id :: string
  mr_subject :: string
  mr_content :: string
  mr_priority :: priority
  mr_status :: string

datatype db_write =
    Insert_announcement announcement_row
  | Update_announcement string announcement_stats
  | Update_message_status string string
  | Insert_message message_row
  | Upsert_settings "string \<rightharpoonup> jsval"

datatype 'd field = Absent | Null | Val 'd

record 'd result =
  error :: "string option"
  data :: "'d field"
  writes :: "db_write list"
  revalidated :: "string list"

section \<open>Announcements\<close>

definition getAnnouncements :: "user option \<Rightarrow> 'row list response \<Rightarrow> 'row list result" where
  "getAnnouncements user resp =
     (if \<not> is_admin user
      then \<lparr>error = Some ''Unauthorized'', data = Null, writes = [], revalidated = []\<rparr>
      else case resp of
        Failure e \<Rightarrow> \<lparr>error = Some (pg_message e), data = Null, writes = [], revalidated = []\<rparr>
      | Success d c \<Rightarrow> \<lparr>error = None, data = Val d, writes = [], revalidated = []\<rparr>)"

text \<open>
  \<open>createAnnouncement\<close>: \<open>now\<close> is the text of \<open>new Date().toISOString()\<close>. \<open>countResp\<close>
  is the response to the one count request the target selects (none is sent for the
  target \<open>specific\<close>), \<open>insertResp\<close> the response to the insert.
\<close>

definition createAnnouncement ::
  "user option \<Rightarrow> string \<Rightarrow> announcement_input \<Rightarrow> unit response \<Rightarrow> 'row response \<Rightarrow>
   'row result" where
  "createAnnouncement user now input countResp insertResp =
     (case user of
        None \<Rightarrow> \<lparr>error = Some ''Unauthorized'', data = Absent, writes = [], revalidated = []\<rparr>
      | Some u \<Rightarrow>
          if u_role u \<noteq> ''admin''
          then \<lparr>error = Some ''Unauthorized'', data = Absent, writes = [], revalidated = []\<rparr>
          else
            let status_v = (if truthy (in_scheduled_at input) then ''scheduled'' else ''draft'');
                sent_at_v = (if truthy (in_scheduled_at input) then None else Some now);
                recipients_v =
                  (if in_target input = Tg_all then or0 (rcount countResp)
                   else if in_target input = Tg_active then or0 (rcount countResp)
                   else if in_target input = Tg_tournament then or0 (rcount countResp)
                   else 0);
                row = \<lparr>title = in_title input, content = in_content input,
                        type_of_row = in_type input, target = in_target input,
                        status = status_v, sent_at = sent_at_v,
                        scheduled_at = (if truthy (in_scheduled_at input)
                                        then in_scheduled_at input else None),
                        recipients = recipients_v, opened = 0, clicked = 0,
                        created_by = u_id u\<rparr>
            in (case insertResp of
                  Failure e \<Rightarrow>
                    \<lparr>error = Some (pg_message e), data = Absent,
                     writes = [Insert_announcement row], revalidated = []\<rparr>
                | Success announcement c \<Rightarrow>
                    \<lparr>error = None, data = Val announcement,
                     writes = [Insert_announcement row],
                     revalidated = [''/admin/dashboard'']\<rparr>))"

text \<open>\<open>updateAnnouncementStats\<close> does not call \<open>getCurrentUser\<close>: it has no user to look at.\<close>

definition updateAnnouncementStats ::
  "string \<Rightarrow> announcement_stats \<Rightarrow> unit response \<Rightarrow> unit result" where
  "updateAnnouncementStats announcementId stats resp =
     (case resp of
        Failure e \<Rightarrow>
          \<lparr>error = Some (pg_message e), data = Absent,
           writes = [Update_announcement announcementId stats], revalidated = []\<rparr>
      | Success d c \<Rightarrow>
          \<lparr>error = None, data = Absent,
           writes = [Update_announcement announcementId stats], revalidated = []\<rparr>)"

section \<open>Admin messages\<close>

record profile_ref =
  full_name :: "string option"
  email :: "string option"

record admin_message =
  am_id :: string
  am_profiles :: "profile_ref option"
  am_subject :: string
  am_content :: string
  am_status :: string
  am_created_at :: string
  am_priority :: string
  am_user_id :: string

record message =
  msg_id :: string
  player_name :: string
  player_email :: string
  subject :: string
  msg_content :: string
  msg_status :: string
  created_at :: string
  msg_priority :: string
  user_id :: string

text \<open>
  The status a write request gives to an admin message, and the values the data model
  allows for it (message status: unread, read, replied).
\<close>

fun message_status_written :: "db_write \<Rightarrow> string option" where
  "message_status_written (Update_message_status messageId s) = Some s"
| "message_status_written (Insert_message row) = Some (mr_status row)"
| "message_status_written (Insert_announcement row) = None"
| "message_status_written (Update_announcement announcementId stats) = None"
| "message_status_written (Upsert_settings row) = None"

definition valid_message_status :: "string \<Rightarrow> bool" where
  "valid_message_status s = (s = ''unread'' \<or> s = ''read'' \<or> s = ''replied'')"

text \<open>The transformation to the \<open>Message\<close> interface, shared by the two readers.\<close>

definition to_message :: "admin_message \<Rightarrow> message" where
  "to_message msg =
     \<lparr>msg_id = am_id msg,
      player_name =
        or_text (case am_profiles msg of None \<Rightarrow> None | Some p \<Rightarrow> full_name p) ''Unknown'',
      player_email =
        or_text (case am_profiles msg of None \<Rightarrow> None | Some p \<Rightarrow> email p) [],
      subject = am_subject msg,
      msg_content = am_content msg,
      msg_status = am_status msg,
      created_at = am_created_at msg,
      msg_priority = am_priority msg,
      user_id = am_user_id msg\<rparr>"

definition getAdminMessages ::
  "user option \<Rightarrow> admin_message list response \<Rightarrow> message list result" where
  "getAdminMessages user resp =
     (if \<not> is_admin user
      then \<lparr>error = Some ''Unauthorized'', data = Null, writes = [], revalidated = []\<rparr>
      else case resp of
        Failure e \<Rightarrow> \<lparr>error = Some (pg_message e), data = Null, writes = [], revalidated = []\<rparr>
      | Success d c \<Rightarrow>
          \<lparr>error = None, data = Val (map to_message d), writes = [], revalidated = []\<rparr>)"

definition getAdminMessage ::
  "user option \<Rightarrow> string \<Rightarrow> admin_message response \<Rightarrow> message result" where
  "getAdminMessage user messageId resp =
     (if \<not> is_admin user
      then \<lparr>error = Some ''Unauthorized'', data = Null, writes = [], revalidated = []\<rparr>
      else case resp of
        Failure e \<Rightarrow> \<lparr>error = Some (pg_message e), data = Null, writes = [], revalidated = []\<rparr>
      | Success d c \<Rightarrow>
          \<lparr>error = None, data = Val (to_message d), writes = [], revalidated = []\<rparr>)"

definition updateMessageStatus ::
  "user option \<Rightarrow> string \<Rightarrow> message_status \<Rightarrow> unit response \<Rightarrow> unit result" where
  "updateMessageStatus user messageId new_status resp =
     (if \<not> is_admin user
      then \<lparr>error = Some ''Unauthorized'', data = Absent, writes = [], revalidated = []\<rparr>
      else case resp of
        Failure e \<Rightarrow>
          \<lparr>error = Some (pg_message e), data = Absent,
           writes = [Update_message_status messageId (status_text new_status)],
           revalidated = []\<rparr>
      | Success d c \<Rightarrow>
          \<lparr>error = None, data = Absent,
           writes = [Update_message_status messageId (status_text new_status)],
           revalidated = [''/admin/dashboard'']\<rparr>)"

text \<open>
  \<open>replyToMessage\<close> fetches the original message, then updates its status. The test
  \<open>fetchError || !originalMessage\<close> holds exactly for a failed fetch: a failure carries
  no row, a success carries one. The action awaits the update and drops its response
  (\<open>updateResp\<close>); the \<open>reply\<close> text is not used.
\<close>

definition replyToMessage ::
  "user option \<Rightarrow> string \<Rightarrow> string \<Rightarrow> 'row response \<Rightarrow> unit response \<Rightarrow> unit result" where
  "replyToMessage user messageId reply fetchResp updateResp =
     (if \<not> is_admin user
      then \<lparr>error = Some ''Unauthorized'', data = Absent, writes = [], revalidated = []\<rparr>
      else case fetchResp of
        Failure fetchError \<Rightarrow>
          \<lparr>error = Some ''Message not found'', data = Absent, writes = [], revalidated = []\<rparr>
      | Success originalMessage c \<Rightarrow>
          \<lparr>error = None, data = Absent,
           writes = [Update_message_status messageId ''replied''],
           revalidated = [''/admin/dashboard'']\<rparr>)"

definition sendMessageToAdmin ::
  "user option \<Rightarrow> message_input \<Rightarrow> 'row response \<Rightarrow> 'row result" where
  "sendMessageToAdmin user input resp =
     (case user of
        None \<Rightarrow> \<lparr>error = Some ''Unauthorized'', data = Absent, writes = [], revalidated = []\<rparr>
      | Some u \<Rightarrow>
          let row = \<lparr>mr_user_id = u_id u, mr_subject = mi_subject input,
                      mr_content = mi_content input,
                      mr_priority = (case mi_priority input of None \<Rightarrow> P_medium | Some p \<Rightarrow> p),
                      mr_status = ''unread''\<rparr>
          in (case resp of
                Failure e \<Rightarrow>
                  \<lparr>error = Some (pg_message e), data = Absent,
                   writes = [Insert_message row], revalidated = []\<rparr>
              | Success message c \<Rightarrow>
                  \<lparr>error = None, data = Val message,
                   writes = [Insert_message row], revalidated = []\<rparr>))"

section \<open>Communication statistics\<close>

text \<open>
  Rows of the two data requests of \<open>getCommunicationStats\<close>. The timestamps of a replied
  message are kept as the instants (milliseconds) that \<open>new Date(text).getTime()\<close> reads.
\<close>

record replied_row =
  rr_created_at :: int
  rr_updated_at :: "int option"

record sent_row =
  sr_recipients :: "int option"
  sr_opened :: "int option"

definition responseRate :: "nat option \<Rightarrow> nat option \<Rightarrow> int option" where
  "responseRate totalMessages repliedMessages =
     (case totalMessages of
        None \<Rightarrow> Some 0
      | Some n \<Rightarrow>
          if n \<noteq> 0 \<and> 0 < n
          then map_option (\<lambda>q. js_round (js_mul q 100))
                 (js_div (of_nat (or0 repliedMessages)) (of_nat n))
          else Some 0)"

fun totalTime :: "replied_row list \<Rightarrow> rat \<Rightarrow> rat option" where
  "totalTime [] acc = Some acc"
| "totalTime (msg # rest) acc =
     (let created = rr_created_at msg;
          updated = (case rr_updated_at msg of None \<Rightarrow> rr_created_at msg | Some t \<Rightarrow> t)
      in case js_div (js_sub (of_int updated) (of_int created)) (js_mul (js_mul 1000 60) 60) of
           None \<Rightarrow> None
         | Some diffHours \<Rightarrow> totalTime rest (js_add acc diffHours))"

definition avgResponseTime :: "replied_row list option \<Rightarrow> rat option" where
  "avgResponseTime repliedMessagesData =
     (case repliedMessagesData of
        None \<Rightarrow> Some 0
      | Some rows \<Rightarrow>
          if 0 < length rows
          then Option.bind (totalTime rows 0) (\<lambda>hours.
               Option.bind (js_div hours (of_nat (length rows))) (\<lambda>mean.
                 js_div (of_int (js_round (js_mul mean 10))) 10))
          else Some 0)"

definition int_or0 :: "int option \<Rightarrow> rat" where
  "int_or0 n = (case n of None \<Rightarrow> 0 | Some k \<Rightarrow> of_int k)"

definition totalRecipients :: "sent_row list \<Rightarrow> rat" where
  "totalRecipients announcements =
     foldl (\<lambda>acc a. js_add acc (int_or0 (sr_recipients a))) 0 announcements"

definition totalOpened :: "sent_row list \<Rightarrow> rat" where
  "totalOpened announcements =
     foldl (\<lambda>acc a. js_add acc (int_or0 (sr_opened a))) 0 announcements"

definition engagementRate :: "sent_row list option \<Rightarrow> int option" where
  "engagementRate announcements =
     (case announcements of
        None \<Rightarrow> Some 0
      | Some rows \<Rightarrow>
          if 0 < length rows
          then (if 0 < totalRecipients rows
                then map_option (\<lambda>q. js_round (js_mul q 100))
                       (js_div (totalOpened rows) (totalRecipients rows))
                else Some 0)
          else Some 0)"

record communication_stats =
  totalAnnouncements :: nat
  totalMessages :: nat
  unreadMessages :: nat
  cs_responseRate :: "int option"
  cs_avgResponseTime :: "rat option"
  cs_engagementRate :: "int option"

definition getCommunicationStats ::
  "user option \<Rightarrow> unit response \<Rightarrow> unit response \<Rightarrow> unit response \<Rightarrow> unit response \<Rightarrow>
   replied_row list response \<Rightarrow> sent_row list response \<Rightarrow> communication_stats result" where
  "getCommunicationStats user announcementsCount messagesCount unreadCount repliedCount
       repliedData sentAnnouncements =
     (if \<not> is_admin user
      then \<lparr>error = Some ''Unauthorized'', data = Null, writes = [], revalidated = []\<rparr>
      else
        \<lparr>error = None,
         data = Val
           \<lparr>totalAnnouncements = or0 (rcount announcementsCount),
            totalMessages = or0 (rcount messagesCount),
            unreadMessages = or0 (rcount unreadCount),
            cs_responseRate = responseRate (rcount messagesCount) (rcount repliedCount),
            cs_avgResponseTime = avgResponseTime (rdata repliedData),
            cs_engagementRate = engagementRate (rdata sentAnnouncements)\<rparr>,
         writes = [], revalidated = []\<rparr>)"

section \<open>System settings\<close>

text \<open>
  A settings section is an object: the map of its properties. The spread
  \<open>{ ...defaults, ...stored }\<close> is \<open>defaults ++ stored\<close>: a stored property wins.
\<close>

record settings_row =
  row_platform :: "(string \<rightharpoonup> jsval) option"
  row_security :: "(string \<rightharpoonup> jsval) option"
  row_notifications :: "(string \<rightharpoonup> jsval) option"
  row_payments :: "(string \<rightharpoonup> jsval) option"

record system_settings =
  platform :: "string \<rightharpoonup> jsval"
  security :: "string \<rightharpoonup> jsval"
  notifications :: "string \<rightharpoonup> jsval"
  payments :: "string \<rightharpoonup> jsval"

definition defaultSettings :: system_settings where
  "defaultSettings =
     \<lparr>platform = map_of
        [(''name'', JStr ''GOALDEN''),
         (''version'', JStr ''1.2.0''),
         (''maintenance_mode'', JBool False),
         (''registration_enabled'', JBool True),
         (''tournaments_enabled'', JBool True)],
      security = map_of
        [(''password_min_length'', JNum 8),
         (''session_timeout'', JNum 24),
         (''two_factor_enabled'', JBool False),
         (''ip_whitelist'', JArr [])],
      notifications = map_of
        [(''email_enabled'', JBool True),
         (''sms_enabled'', JBool False),
         (''push_enabled'', JBool True),
         (''whatsapp_enabled'', JBool False)],
      payments = map_of
        [(''mpesa_enabled'', JBool True),
         (''stripe_enabled'', JBool False),
         (''minimum_amount'', JNum 50),
         (''maximum_amount'', JNum 10000)]\<rparr>"

definition or_empty :: "(string \<rightharpoonup> jsval) option \<Rightarrow> (string \<rightharpoonup> jsval)" where
  "or_empty section = (case section of None \<Rightarrow> Map.empty | Some m \<Rightarrow> m)"

definition merged_settings :: "settings_row \<Rightarrow> system_settings" where
  "merged_settings d =
     \<lparr>platform = platform defaultSettings ++ or_empty (row_platform d),
      security = security defaultSettings ++ or_empty (row_security d),
      notifications = notifications defaultSettings ++ or_empty (row_notifications d),
      payments = payments defaultSettings ++ or_empty (row_payments d)\<rparr>"

definition getSystemSettings :: "user option \<Rightarrow> settings_row response \<Rightarrow> system_settings result" where
  "getSystemSettings user resp =
     (if \<not> is_admin user
      then \<lparr>error = Some ''Unauthorized'', data = Null, writes = [], revalidated = []\<rparr>
      else case resp of
        Failure e \<Rightarrow>
          if pg_code e \<noteq> ''PGRST116''
          then \<lparr>error = Some (pg_message e), data = Null, writes = [], revalidated = []\<rparr>
          else \<lparr>error = None, data = Val defaultSettings, writes = [], revalidated = []\<rparr>
      | Success d c \<Rightarrow>
          \<lparr>error = None, data = Val (merged_settings d), writes = [], revalidated = []\<rparr>)"

text \<open>
  \<open>updateSystemSettings\<close> upserts \<open>{ id: 1, ...settings, updated_at: now }\<close>: a property
  \<open>id\<close> of the settings replaces the \<open>1\<close>, and \<open>updated_at\<close> replaces one of the settings.
\<close>

definition updateSystemSettings ::
  "user option \<Rightarrow> string \<Rightarrow> (string \<rightharpoonup> jsval) \<Rightarrow> unit response \<Rightarrow> unit result" where
  "updateSystemSettings user now settings resp =
     (if \<not> is_admin user
      then \<lparr>error = Some ''Unauthorized'', data = Absent, writes = [], revalidated = []\<rparr>
      else
        let row = ([''id'' \<mapsto> JNum 1] ++ settings)(''updated_at'' \<mapsto> JStr now)
        in case resp of
             Failure e \<Rightarrow>
               \<lparr>error = Some (pg_message e), data = Absent,
                writes = [Upsert_settings row], revalidated = []\<rparr>
           | Success d c \<Rightarrow>
               \<lparr>error = None, data = Absent,
                writes = [Upsert_settings row], revalidated = [''/admin/dashboard'']\<rparr>)"

section \<open>System health\<close>

datatype health_status = Healthy | Warning | Critical

datatype database_state = Connected | Disconnected | Slow

record system_health =
  health :: health_status
  uptime :: rat
  response_time :: int
  database_status :: database_state
  storage_usage :: rat
  memory_usage :: rat
  cpu_usage :: rat
  active_users :: nat
  concurrent_tournaments :: nat

text \<open>
  \<open>getSystemHealth\<close> reads \<open>Date.now()\<close> before and after the probe request:
  \<open>startTime\<close> and \<open>endTime\<close>, in milliseconds. The interface \<open>SystemHealth\<close> of the
  settings panel declares the three values of \<open>health_status\<close> for the field \<open>status\<close>.
\<close>

definition getSystemHealth ::
  "user option \<Rightarrow> int \<Rightarrow> int \<Rightarrow> unit response \<Rightarrow> unit response \<Rightarrow> 'row response \<Rightarrow>
   system_health result" where
  "getSystemHealth user startTime endTime activeUsers concurrentTournaments probe =
     (if \<not> is_admin user
      then \<lparr>error = Some ''Unauthorized'', data = Null, writes = [], revalidated = []\<rparr>
      else
        let responseTime = endTime - startTime;
            databaseStatus =
              (if rerror probe \<noteq> None then Disconnected
               else if 1000 < responseTime then Slow
               else Connected)
        in \<lparr>error = None,
            data = Val
              \<lparr>health = (if databaseStatus = Connected then Healthy else Critical),
               uptime = lit (999 / 10),
               response_time = responseTime,
               database_status = databaseStatus,
               storage_usage = 65,
               memory_usage = 45,
               cpu_usage = 23,
               active_users = or0 (rcount activeUsers),
               concurrent_tournaments = or0 (rcount concurrentTournaments)\<rparr>,
            writes = [], revalidated = []\<rparr>)"

section \<open>User roles\<close>

record profile_role =
  pr_role :: "string option"

record user_role =
  ur_id :: string
  ur_name :: string
  ur_permissions :: "string list"
  ur_created_at :: string
  ur_user_count :: nat

text \<open>
  \<open>roleCounts\<close> is an object filled in the order of the profiles, read and written by
  \<open>acc[role]\<close>, and listed by \<open>Object.entries\<close>. For role names that are plain words the
  object is the list of its keys in the order they were first set, each with its count.
  A role name is not plain when it names a member of \<open>Object.prototype\<close> (the read
  \<open>acc[role] || 0\<close> and the read of \<open>rolePermissions\<close> then find the inherited value),
  when it is made of digits (\<open>Object.entries\<close> lists integer keys first), or when it
  starts outside ASCII (\<open>toUpperCase\<close> is modelled for ASCII). With such a name among
  the profiles the list is outside this model: \<open>roles_of\<close> gives \<open>None\<close>.
\<close>

definition digits_only :: "string \<Rightarrow> bool" where
  "digits_only name =
     (name \<noteq> [] \<and> list_all (\<lambda>c. 48 \<le> (of_char c :: nat) \<and> (of_char c :: nat) \<le> 57) name)"

definition plain_role :: "string \<Rightarrow> bool" where
  "plain_role name =
     (name \<notin> set object_prototype_keys \<and> \<not> digits_only name \<and>
      (case name of [] \<Rightarrow> True | c # cs \<Rightarrow> (of_char c :: nat) < 128))"

fun count_role :: "(string \<times> nat) list \<Rightarrow> string \<Rightarrow> (string \<times> nat) list" where
  "count_role [] role = [(role, 1)]"
| "count_role ((name, n) # rest) role =
     (if name = role then (name, n + 1) # rest else (name, n) # count_role rest role)"

definition roleCounts :: "profile_role list \<Rightarrow> (string \<times> nat) list" where
  "roleCounts profiles = foldl (\<lambda>acc profile. count_role acc (or_text (pr_role profile) ''player'')) [] profiles"

definition rolePermissions :: "string \<rightharpoonup> string list" where
  "rolePermissions = map_of [(''admin'', [''all'']), (''player'', [''tournaments'', ''matches''])]"

text \<open>\<open>toUpperCase\<close> on the first character, for the letters of ASCII.\<close>

definition to_upper :: "char \<Rightarrow> char" where
  "to_upper c = (let n = (of_char c :: nat) in if 97 \<le> n \<and> n \<le> 122 then char_of (n - 32) else c)"

definition capitalize :: "string \<Rightarrow> string" where
  "capitalize name = (case name of [] \<Rightarrow> [] | c # cs \<Rightarrow> to_upper c # cs)"

definition to_user_role :: "string \<times> nat \<Rightarrow> user_role" where
  "to_user_role entry =
     (case entry of (name, user_count) \<Rightarrow>
        \<lparr>ur_id = name,
         ur_name = capitalize name,
         ur_permissions = (case rolePermissions name of None \<Rightarrow> [] | Some ps \<Rightarrow> ps),
         ur_created_at = ''2024-01-01'',
         ur_user_count = user_count\<rparr>)"

definition roles_of :: "profile_role list \<Rightarrow> user_role list option" where
  "roles_of profiles =
     (if list_all (\<lambda>profile. plain_role (or_text (pr_role profile) ''player'')) profiles
      then Some (map to_user_role (roleCounts profiles))
      else None)"

definition getUserRoles ::
  "user option \<Rightarrow> profile_role list response \<Rightarrow> user_role list option result" where
  "getUserRoles user resp =
     (if \<not> is_admin user
      then \<lparr>error = Some ''Unauthorized'', data = Null, writes = [], revalidated = []\<rparr>
      else case resp of
        Failure e \<Rightarrow> \<lparr>error = Some (pg_message e), data = Null, writes = [], revalidated = []\<rparr>
      | Success profiles c \<Rightarrow>
          \<lparr>error = None, data = Val (roles_of profiles), writes = [], revalidated = []\<rparr>)"

section \<open>Rounding: the exponent and the error of one operation\<close>

lemma pow2_powi: "pow2 k = 2 powi k"
  by (simp add: pow2_def power_int_def field_simps)

lemma pow2_pos: "0 < pow2 k"
  by (simp add: pow2_powi)

lemma pow2_diff: "pow2 (a - b) = pow2 a / pow2 b"
  by (simp add: pow2_powi power_int_diff)

lemma ilog2_bounds:
  assumes "0 < x"
  shows "pow2 (ilog2 x) \<le> x" and "x < pow2 (ilog2 x + 1)"
proof -
  obtain p q where pq: "quotient_of x = (p, q)"
    by (cases "quotient_of x")
  have q: "0 < q"
    using pq by (rule quotient_of_denom_pos)
  have x: "x = of_int p / of_int q"
    using pq by (rule quotient_of_div)
  have p: "0 < p"
    using assms q x by (simp add: zero_less_divide_iff)
  define bp where "bp = bitlen p"
  define bq where "bq = bitlen q"
  have bp1: "1 \<le> bp" and bq1: "1 \<le> bq"
    using p q by (simp_all add: bp_def bq_def bitlen_alt_def)
  have plo: "2 ^ nat (bp - 1) \<le> p" and phi: "p < 2 ^ nat bp"
    using bitlen_bounds [OF p] by (simp_all add: bp_def)
  have qlo: "2 ^ nat (bq - 1) \<le> q" and qhi: "q < 2 ^ nat bq"
    using bitlen_bounds [OF q] by (simp_all add: bq_def)
  have plo': "pow2 (bp - 1) \<le> of_int p"
  proof -
    have "(of_int (2 ^ nat (bp - 1)) :: rat) \<le> of_int p"
      using plo by (simp only: of_int_le_iff)
    then show ?thesis using bp1 by (simp add: pow2_def)
  qed
  have phi': "of_int p < pow2 bp"
  proof -
    have "(of_int p :: rat) < of_int (2 ^ nat bp)"
      using phi by (simp only: of_int_less_iff)
    then show ?thesis using bp1 by (simp add: pow2_def)
  qed
  have qlo': "pow2 (bq - 1) \<le> of_int q"
  proof -
    have "(of_int (2 ^ nat (bq - 1)) :: rat) \<le> of_int q"
      using qlo by (simp only: of_int_le_iff)
    then show ?thesis using bq1 by (simp add: pow2_def)
  qed
  have qhi': "of_int q < pow2 bq"
  proof -
    have "(of_int q :: rat) < of_int (2 ^ nat bq)"
      using qhi by (simp only: of_int_less_iff)
    then show ?thesis using bq1 by (simp add: pow2_def)
  qed
  have q': "(0::rat) < of_int q"
    using q by simp
  have lower: "pow2 (bp - bq - 1) \<le> x"
  proof -
    have "pow2 (bp - bq - 1) = pow2 (bp - 1) / pow2 bq"
      by (simp add: pow2_diff [symmetric] algebra_simps)
    also have "\<dots> \<le> of_int p / of_int q"
      using plo' qhi' q' pow2_pos [of "bp - 1"] by (intro frac_le) simp_all
    finally show ?thesis by (simp add: x)
  qed
  have upper: "x < pow2 (bp - bq + 1)"
  proof -
    have "of_int p / of_int q < pow2 bp / pow2 (bq - 1)"
      using phi' qlo' p pow2_pos [of "bq - 1"] by (intro frac_less) simp_all
    also have "\<dots> = pow2 (bp - bq + 1)"
      by (simp add: pow2_diff [symmetric] algebra_simps)
    finally show ?thesis by (simp add: x)
  qed
  have il: "ilog2 x = (if pow2 (bp - bq) \<le> x then bp - bq else bp - bq - 1)"
    by (simp add: ilog2_def pq bp_def bq_def Let_def)
  show "pow2 (ilog2 x) \<le> x"
    using lower by (simp add: il)
  show "x < pow2 (ilog2 x + 1)"
    using upper by (auto simp add: il not_le)
qed

lemma rne_error: "\<bar>of_int (rne y) - y\<bar> \<le> 1 / 2"
proof -
  have "of_int \<lfloor>y\<rfloor> \<le> y" "y < of_int \<lfloor>y\<rfloor> + 1"
    by linarith+
  then show ?thesis
    by (auto simp add: rne_def Let_def abs_le_iff)
qed

lemma pow2_mono: "a \<le> b \<Longrightarrow> pow2 a \<le> pow2 b"
  by (simp add: pow2_powi power_int_increasing)

lemma pow2_add: "pow2 (a + b) = pow2 a * pow2 b"
  by (simp add: pow2_powi power_int_add)

lemma pow2_cancel: "pow2 (- k) * pow2 k = 1"
  using pow2_add [of "- k" k] by (simp add: pow2_def)

lemma ilog2_normal:
  assumes "pow2 (- 1022) \<le> x"
  shows "- 1022 \<le> ilog2 x"
proof (rule ccontr)
  assume "\<not> - 1022 \<le> ilog2 x"
  then have "ilog2 x + 1 \<le> - 1022" by simp
  then have "pow2 (ilog2 x + 1) \<le> pow2 (- 1022)" by (rule pow2_mono)
  moreover have "0 < x" using assms pow2_pos [of "- 1022"] by linarith
  then have "x < pow2 (ilog2 x + 1)" by (rule ilog2_bounds(2))
  ultimately show False using assms by linarith
qed

lemma ilog2_subnormal:
  assumes "0 < x" and "x < pow2 (- 1022)"
  shows "ilog2 x < - 1022"
proof (rule ccontr)
  assume "\<not> ilog2 x < - 1022"
  then have "- 1022 \<le> ilog2 x" by simp
  then have "pow2 (- 1022) \<le> pow2 (ilog2 x)" by (rule pow2_mono)
  moreover have "pow2 (ilog2 x) \<le> x" using assms(1) by (rule ilog2_bounds(1))
  ultimately show False using assms(2) by linarith
qed

text \<open>The two regimes of \<open>fl\<close>: 53 significant bits, or the fixed step \<open>2 ^ -1074\<close>.\<close>

lemma fl_normal:
  assumes "pow2 (- 1022) \<le> \<bar>x\<bar>"
  shows "fl x = of_int (rne (x * pow2 (52 - ilog2 \<bar>x\<bar>))) / pow2 (52 - ilog2 \<bar>x\<bar>)"
proof -
  have "x \<noteq> 0" using assms pow2_pos [of "- 1022"] by auto
  moreover have "min (52 - ilog2 \<bar>x\<bar>) 1074 = 52 - ilog2 \<bar>x\<bar>"
    using ilog2_normal [OF assms] by simp
  ultimately show ?thesis by (simp add: fl_def Let_def)
qed

lemma fl_subnormal:
  assumes "x \<noteq> 0" and "\<bar>x\<bar> < pow2 (- 1022)"
  shows "fl x = of_int (rne (x * pow2 1074)) / pow2 1074"
proof -
  have "0 < \<bar>x\<bar>" using assms(1) by simp
  then have "ilog2 \<bar>x\<bar> < - 1022" using assms(2) by (rule ilog2_subnormal)
  then have "min (52 - ilog2 \<bar>x\<bar>) 1074 = 1074" by simp
  then show ?thesis using assms(1) by (simp add: fl_def Let_def)
qed

lemma scaled_error:
  assumes "fl x = of_int (rne (x * pow2 k)) / pow2 k"
  shows "\<bar>fl x - x\<bar> \<le> (1 / 2) / pow2 k"
proof -
  have "fl x - x = (of_int (rne (x * pow2 k)) - x * pow2 k) / pow2 k"
    using pow2_pos [of k] by (simp add: assms field_simps)
  then have "\<bar>fl x - x\<bar> = \<bar>of_int (rne (x * pow2 k)) - x * pow2 k\<bar> / pow2 k"
    using pow2_pos [of k] by simp
  also have "\<dots> \<le> (1 / 2) / pow2 k"
    by (rule divide_right_mono [OF rne_error]) (simp add: less_imp_le [OF pow2_pos])
  finally show ?thesis .
qed

text \<open>
  One rounding changes a number of magnitude at least \<open>2 ^ -1022\<close> by at most the
  fraction \<open>2 ^ -53\<close> of it, and a smaller number by at most \<open>2 ^ -1075\<close>.
\<close>

lemma fl_error:
  assumes "pow2 (- 1022) \<le> \<bar>x\<bar>"
  shows "\<bar>fl x - x\<bar> \<le> \<bar>x\<bar> / 2 ^ 53"
proof -
  define e where "e = ilog2 \<bar>x\<bar>"
  have ax: "0 < \<bar>x\<bar>" using assms pow2_pos [of "- 1022"] by linarith
  have lo: "pow2 e \<le> \<bar>x\<bar>"
    using ilog2_bounds(1) [OF ax] by (simp add: e_def)
  have "\<bar>fl x - x\<bar> \<le> (1 / 2) / pow2 (52 - e)"
    using fl_normal [OF assms] unfolding e_def by (rule scaled_error)
  also have "\<dots> = pow2 e / 2 ^ 53"
  proof -
    have "pow2 e = pow2 52 / pow2 (52 - e)"
      by (simp add: pow2_diff [symmetric])
    then show ?thesis
      using pow2_pos [of "52 - e"] by (simp add: pow2_def)
  qed
  also have "\<dots> \<le> \<bar>x\<bar> / 2 ^ 53"
    using lo by (simp add: divide_right_mono)
  finally show ?thesis .
qed

lemma fl_error_subnormal:
  assumes "\<bar>x\<bar> < pow2 (- 1022)"
  shows "\<bar>fl x - x\<bar> \<le> pow2 (- 1022) / 2 ^ 53"
proof (cases "x = 0")
  case True
  then show ?thesis using pow2_pos [of "- 1022"] by (simp add: fl_def)
next
  case False
  have "\<bar>fl x - x\<bar> \<le> (1 / 2) / pow2 1074"
    using fl_subnormal [OF False assms] by (rule scaled_error)
  also have "\<dots> = pow2 (- 1022) / 2 ^ 53"
  proof -
    have "pow2 (- 1022) = pow2 52 / pow2 1074"
      by (simp add: pow2_diff [symmetric])
    then show ?thesis
      using pow2_pos [of 1074] by (simp add: pow2_def [of 52])
  qed
  finally show ?thesis .
qed

lemma fl_within:
  assumes "\<bar>x\<bar> \<le> B" and "pow2 (- 1022) \<le> B"
  shows "\<bar>fl x - x\<bar> \<le> B / 1000000"
proof -
  have B: "0 < B" using assms(2) pow2_pos [of "- 1022"] by linarith
  have "\<bar>fl x - x\<bar> \<le> B / 2 ^ 53"
  proof (cases "pow2 (- 1022) \<le> \<bar>x\<bar>")
    case True
    then have "\<bar>fl x - x\<bar> \<le> \<bar>x\<bar> / 2 ^ 53" by (rule fl_error)
    also have "\<dots> \<le> B / 2 ^ 53" using assms(1) by (simp add: divide_right_mono)
    finally show ?thesis .
  next
    case False
    then have "\<bar>fl x - x\<bar> \<le> pow2 (- 1022) / 2 ^ 53" by (intro fl_error_subnormal) simp
    also have "\<dots> \<le> B / 2 ^ 53" using assms(2) by (simp add: divide_right_mono)
    finally show ?thesis .
  qed
  also have "\<dots> \<le> B / 1000000"
    using B by (intro divide_left_mono) simp_all
  finally show ?thesis .
qed

lemma fl_between:
  assumes "lo \<le> x" and "x \<le> hi" and "0 \<le> lo" and "hi \<le> B" and "pow2 (- 1022) \<le> B"
  shows "lo - B / 1000000 \<le> fl x" and "fl x \<le> hi + B / 1000000"
proof -
  have "\<bar>x\<bar> \<le> B" using assms by linarith
  then have "\<bar>fl x - x\<bar> \<le> B / 1000000" using assms(5) by (rule fl_within)
  then have "fl x - x \<le> B / 1000000 \<and> - (fl x - x) \<le> B / 1000000"
    by (simp only: abs_le_iff)
  with assms show "lo - B / 1000000 \<le> fl x" and "fl x \<le> hi + B / 1000000"
    by linarith+
qed

lemma tiny_le_one: "pow2 (- 1022) \<le> 1"
  using pow2_mono [of "- 1022" 0] by (simp add: pow2_def [of 0])

lemma js_round_eq: "of_int n - 1 / 2 \<le> x \<Longrightarrow> x < of_int n + 1 / 2 \<Longrightarrow> js_round x = n"
  unfolding js_round_def by linarith

lemma rne_eq: "of_int n - 1 / 2 < y \<Longrightarrow> y < of_int n + 1 / 2 \<Longrightarrow> rne y = n"
proof -
  assume lo: "of_int n - 1 / 2 < y" and hi: "y < of_int n + 1 / 2"
  have fl: "of_int \<lfloor>y\<rfloor> \<le> y" "y < of_int \<lfloor>y\<rfloor> + 1"
    by linarith+
  have "\<lfloor>y\<rfloor> = n \<or> \<lfloor>y\<rfloor> = n - 1"
    using lo hi fl by linarith
  then show ?thesis
    using lo hi fl by (auto simp add: rne_def Let_def)
qed

section \<open>The growth expressions\<close>

text \<open>
  The expression \<open>((m - m * c) / (m * c)) * 100\<close> with every operation rounded, for a
  finite \<open>m\<close> of at least \<open>2 ^ -1022\<close>: for the factor \<open>0.8\<close> the result stays within a few
  hundredths of 25, for \<open>0.7\<close> of \<open>300 / 7\<close>. No intermediate value exceeds \<open>m\<close> or 100.
\<close>

lemma revenue_chain:
  fixes m :: rat
  defines "a \<equiv> fl (m * lit (8 / 10))"
  defines "b \<equiv> fl (m - a)"
  defines "q \<equiv> fl (b / a)"
  assumes m: "pow2 (- 1022) \<le> m"
  shows "0 < m * lit (8 / 10)" and "m * lit (8 / 10) \<le> m"
    and "0 < a" and "0 < m - a" and "m - a \<le> m"
    and "0 < b / a" and "b / a \<le> 1"
    and "0 < q * 100" and "q * 100 \<le> 100"
    and "js_round (fl (q * 100)) = 25"
proof -
  define c where "c = lit (8 / 10)"
  define p where "p = fl (q * 100)"
  have m0: "0 < m" using m pow2_pos [of "- 1022"] by linarith
  have c: "79999 / 100000 \<le> c" "c \<le> 80001 / 100000"
    using fl_between [of "8 / 10" "8 / 10" "8 / 10" 1] tiny_le_one
    unfolding c_def lit_def by simp_all
  have mc: "79999 / 100000 * m \<le> m * c" "m * c \<le> 80001 / 100000 * m"
    using c m0 by (simp_all add: mult.commute [of m c])
  have mcB: "80001 / 100000 * m \<le> m" and lo1: "0 \<le> 79999 / 100000 * m"
    using m0 by simp_all
  have a: "79998 / 100000 * m \<le> a" "a \<le> 80002 / 100000 * m"
    using fl_between [OF mc lo1 mcB m] m0 unfolding a_def c_def [symmetric] by linarith+
  have a0: "0 < a"
    using a(1) m0 by linarith
  have ma: "19998 / 100000 * m \<le> m - a" "m - a \<le> 20002 / 100000 * m"
    using a by linarith+
  have maB: "20002 / 100000 * m \<le> m" and lo2: "0 \<le> 19998 / 100000 * m"
    using m0 by simp_all
  have b: "19997 / 100000 * m \<le> b" "b \<le> 20003 / 100000 * m"
    using fl_between [OF ma lo2 maB m] m0 unfolding b_def by linarith+
  have ba: "2499 / 10000 \<le> b / a" "b / a \<le> 2501 / 10000"
  proof -
    have lo: "2499 / 10000 * a \<le> b" and hi: "b \<le> 2501 / 10000 * a"
      using a b m0 by linarith+
    show "2499 / 10000 \<le> b / a"
      using lo by (simp only: pos_le_divide_eq [OF a0])
    show "b / a \<le> 2501 / 10000"
      using hi by (simp only: pos_divide_le_eq [OF a0])
  qed
  have q: "2498 / 10000 \<le> q" "q \<le> 2502 / 10000"
    using fl_between [OF ba _ _ tiny_le_one] unfolding q_def by simp_all
  have q100: "2498 / 100 \<le> q * 100" "q * 100 \<le> 2502 / 100"
    using q by linarith+
  have tiny100: "pow2 (- 1022) \<le> 100"
    using tiny_le_one by linarith
  have p: "2497 / 100 \<le> p" "p \<le> 2503 / 100"
    using fl_between [OF q100 _ _ tiny100] unfolding p_def by simp_all
  show "0 < m * lit (8 / 10)" and "m * lit (8 / 10) \<le> m"
    using mc m0 unfolding c_def by linarith+
  show "0 < a" by (rule a0)
  show "0 < m - a" and "m - a \<le> m"
    using ma m0 by linarith+
  show "0 < b / a" and "b / a \<le> 1"
    using ba by linarith+
  show "0 < q * 100" and "q * 100 \<le> 100"
    using q100 by linarith+
  show "js_round (fl (q * 100)) = 25"
    using p unfolding p_def by (intro js_round_eq) simp_all
qed

lemma players_chain:
  fixes m :: rat
  defines "a \<equiv> fl (m * lit (7 / 10))"
  defines "b \<equiv> fl (m - a)"
  defines "q \<equiv> fl (b / a)"
  assumes m: "1 \<le> m"
  shows "a \<noteq> 0" and "js_round (fl (q * 100)) = 43"
proof -
  define c where "c = lit (7 / 10)"
  define p where "p = fl (q * 100)"
  have m0: "0 < m" using m by linarith
  have tiny: "pow2 (- 1022) \<le> m" using m tiny_le_one by linarith
  have c: "69999 / 100000 \<le> c" "c \<le> 70001 / 100000"
    using fl_between [of "7 / 10" "7 / 10" "7 / 10" 1] tiny_le_one
    unfolding c_def lit_def by simp_all
  have mc: "69999 / 100000 * m \<le> m * c" "m * c \<le> 70001 / 100000 * m"
    using c m0 by (simp_all add: mult.commute [of m c])
  have mcB: "70001 / 100000 * m \<le> m" and lo1: "0 \<le> 69999 / 100000 * m"
    using m0 by simp_all
  have a: "69998 / 100000 * m \<le> a" "a \<le> 70002 / 100000 * m"
    using fl_between [OF mc lo1 mcB tiny] m0 unfolding a_def c_def [symmetric] by linarith+
  have a0: "0 < a"
    using a(1) m0 by linarith
  have ma: "29998 / 100000 * m \<le> m - a" "m - a \<le> 30002 / 100000 * m"
    using a by linarith+
  have maB: "30002 / 100000 * m \<le> m" and lo2: "0 \<le> 29998 / 100000 * m"
    using m0 by simp_all
  have b: "29997 / 100000 * m \<le> b" "b \<le> 30003 / 100000 * m"
    using fl_between [OF ma lo2 maB tiny] m0 unfolding b_def by linarith+
  have ba: "4285 / 10000 \<le> b / a" "b / a \<le> 4287 / 10000"
  proof -
    have lo: "4285 / 10000 * a \<le> b" and hi: "b \<le> 4287 / 10000 * a"
      using a b m0 by linarith+
    show "4285 / 10000 \<le> b / a"
      using lo by (simp only: pos_le_divide_eq [OF a0])
    show "b / a \<le> 4287 / 10000"
      using hi by (simp only: pos_divide_le_eq [OF a0])
  qed
  have q: "4284 / 10000 \<le> q" "q \<le> 4288 / 10000"
    using fl_between [OF ba _ _ tiny_le_one] unfolding q_def by simp_all
  have q100: "4284 / 100 \<le> q * 100" "q * 100 \<le> 4288 / 100"
    using q by linarith+
  have tiny100: "pow2 (- 1022) \<le> 100"
    using tiny_le_one by linarith
  have p: "4283 / 100 \<le> p" "p \<le> 4289 / 100"
    using fl_between [OF q100 _ _ tiny100] unfolding p_def by simp_all
  show "a \<noteq> 0" using a0 by simp
  show "js_round (fl (q * 100)) = 43"
    using p unfolding p_def by (intro js_round_eq) simp_all
qed

lemma max_double_facts: "100 \<le> max_double" "max_double < overflow_threshold" "0 < overflow_threshold"
  by (simp_all add: max_double_def overflow_threshold_def)

lemma to_double_Fin: "0 \<le> x \<Longrightarrow> x \<le> max_double \<Longrightarrow> to_double x = Fin (fl x)"
  using max_double_facts by (simp add: to_double_def)

lemma revenue_growth_normal:
  assumes lo: "pow2 (- 1022) \<le> m" and hi: "m \<le> max_double"
  shows "revenue_growth (Fin m) = Fin 25"
proof -
  define a where "a = fl (m * lit (8 / 10))"
  define b where "b = fl (m - a)"
  define q where "q = fl (b / a)"
  note ch = revenue_chain [OF lo, folded a_def b_def q_def]
  have m0: "0 < m" using lo pow2_pos [of "- 1022"] by linarith
  have big: "1 \<le> max_double" "100 \<le> max_double"
    using max_double_facts(1) by linarith+
  have s1: "to_double (m * lit (8 / 10)) = Fin a"
    unfolding a_def using ch(1,2) hi by (intro to_double_Fin) linarith+
  have s2: "to_double (m - a) = Fin b"
    unfolding b_def using ch(4,5) hi by (intro to_double_Fin) linarith+
  have s3: "to_double (b / a) = Fin q"
    unfolding q_def using ch(6,7) big by (intro to_double_Fin) linarith+
  have s4: "to_double (q * 100) = Fin (fl (q * 100))"
    using ch(8,9) big by (intro to_double_Fin) linarith+
  have a0: "a \<noteq> 0" using ch(3) by simp
  show ?thesis
    unfolding revenue_growth_def
    by (simp only: num_pos.simps num_mul.simps num_sub.simps num_div.simps num_round.simps
        s1 s2 s3 s4 ch(10) m0 a0 if_True if_False of_int_numeral)
qed

text \<open>
  Below \<open>2 ^ -1022\<close> the step of the numbers is fixed. For \<open>monthlyRevenue = 3 * 2 ^ -1074\<close>
  (the number \<open>1.5e-323\<close>) the product with \<open>0.8\<close> rounds to two steps, the difference
  is one step, the quotient is \<open>0.5\<close>, and the growth is 50.
\<close>

lemma revenue_growth_subnormal: "revenue_growth (Fin (3 * pow2 (- 1074))) = Fin 50"
proof -
  define u where "u = pow2 (- 1074)"
  define c where "c = lit (8 / 10)"
  have u0: "0 < u" unfolding u_def by (rule pow2_pos)
  have unit: "u * pow2 1074 = 1" unfolding u_def by (rule pow2_cancel)
  have inv: "1 / pow2 1074 = u"
    using unit pow2_pos [of 1074] by (simp add: field_simps)
  have "pow2 (- 1022) = pow2 (- 1074 + 52)" by simp
  also have "\<dots> = u * pow2 52" unfolding u_def by (rule pow2_add)
  finally have tiny: "pow2 (- 1022) = u * 4503599627370496" by (simp add: pow2_def [of 52])
  have c: "79999 / 100000 \<le> c" "c \<le> 80001 / 100000"
    using fl_between [of "8 / 10" "8 / 10" "8 / 10" 1] tiny_le_one
    unfolding c_def lit_def by simp_all
  have big: "1 \<le> max_double" using max_double_facts(1) by linarith
  have u1: "u * 4503599627370496 \<le> 1" using tiny_le_one tiny by simp
  text \<open>the product\<close>
  have x1: "0 < 3 * u * c" "3 * u * c < pow2 (- 1022)"
  proof -
    have "0 < 3 * u" using u0 by simp
    then show "0 < 3 * u * c" using c(1) by (simp add: zero_less_mult_iff)
    have "3 * u * c \<le> 3 * u * 1" using c(2) u0 by (intro mult_left_mono) simp_all
    then show "3 * u * c < pow2 (- 1022)" using u0 unfolding tiny by linarith
  qed
  have "3 * u * c * pow2 1074 = 3 * c * (u * pow2 1074)" by simp
  then have scaled: "3 * u * c * pow2 1074 = 3 * c" by (simp only: unit mult_1_right)
  have r2: "rne (3 * c) = 2"
    using c by (intro rne_eq) simp_all
  have x1': "3 * u * c \<noteq> 0" "\<bar>3 * u * c\<bar> < pow2 (- 1022)"
    using x1 by linarith+
  have "fl (3 * u * c) = of_int (rne (3 * u * c * pow2 1074)) / pow2 1074"
    using x1' by (rule fl_subnormal)
  also have "\<dots> = 2 * (1 / pow2 1074)"
    by (simp only: scaled r2)
  finally have a: "fl (3 * u * c) = 2 * u"
    by (simp only: inv)
  have s1: "to_double (3 * u * c) = Fin (2 * u)"
    using x1 tiny_le_one big a by (subst to_double_Fin) simp_all
  text \<open>the difference\<close>
  have diff: "3 * u - 2 * u = u" by simp
  have usub: "u < pow2 (- 1022)" using u0 unfolding tiny by linarith
  have r1: "rne (u * pow2 1074) = 1"
    unfolding unit by (intro rne_eq) simp_all
  have u': "u \<noteq> 0" "\<bar>u\<bar> < pow2 (- 1022)"
    using u0 usub by linarith+
  have "fl u = of_int (rne (u * pow2 1074)) / pow2 1074"
    using u' by (rule fl_subnormal)
  also have "\<dots> = 1 / pow2 1074"
    by (simp only: r1 of_int_1)
  finally have b: "fl u = u"
    by (simp only: inv)
  have s2: "to_double u = Fin u"
    using u0 usub tiny_le_one big b by (subst to_double_Fin) simp_all
  text \<open>the quotient and the percentage\<close>
  have quot: "u / (2 * u) = 1 / 2" using u0 by simp
  have half: "fl (1 / 2) = 1 / 2" by code_simp
  have s3: "to_double (1 / 2) = Fin (1 / 2)"
    using big half by (subst to_double_Fin) simp_all
  have fifty: "fl 50 = 50" by code_simp
  have s4: "to_double 50 = Fin 50"
    using max_double_facts(1) fifty by (subst to_double_Fin) simp_all
  have r: "js_round 50 = 50" by (intro js_round_eq) simp_all
  have pos: "0 < 3 * u" "2 * u \<noteq> 0" using u0 by simp_all
  have hundred: "1 / 2 * 100 = (50 :: rat)" by simp
  show ?thesis
    unfolding revenue_growth_def u_def [symmetric] c_def [symmetric]
    by (simp only: num_pos.simps num_mul.simps num_sub.simps num_div.simps num_round.simps
        s1 s2 s3 s4 diff quot hundred r pos if_True if_False of_int_numeral)
qed

lemma revenue_growth_infinite: "revenue_growth PosInf = NaN"
  by (simp add: revenue_growth_def lit_def)

section \<open>Percentages\<close>

lemma percentage_of_quotient:
  "d \<noteq> 0 \<Longrightarrow> map_option (\<lambda>q. js_round (js_mul q 100)) (js_div n d) = Some (pct n d)"
  by (simp add: js_div_def js_mul_def pct_def)

lemma totalRecipients_Nil: "totalRecipients [] = 0"
  by (simp add: totalRecipients_def)

section \<open>The guard and the single-request actions\<close>

lemma is_admin_Some: "is_admin user \<Longrightarrow> \<exists>u. user = Some u \<and> u_role u = ''admin''"
  by (cases user) (simp_all add: is_admin_def)

lemma not_admin_cases:
  "\<not> is_admin user \<Longrightarrow> user = None \<or> (\<exists>u. user = Some u \<and> u_role u \<noteq> ''admin'')"
  by (cases user) (simp_all add: is_admin_def)

text \<open>The guard of the eleven guarded operations.\<close>

lemma non_admin_rejected:
  assumes "\<not> is_admin user"
  shows "error (getAnnouncements user r1) = Some ''Unauthorized'' \<and> writes (getAnnouncements user r1) = []"
    and "error (createAnnouncement user now input c1 r2) = Some ''Unauthorized'' \<and>
         writes (createAnnouncement user now input c1 r2) = []"
    and "error (getAdminMessages user r3) = Some ''Unauthorized'' \<and> writes (getAdminMessages user r3) = []"
    and "error (getAdminMessage user messageId r4) = Some ''Unauthorized'' \<and>
         writes (getAdminMessage user messageId r4) = []"
    and "error (updateMessageStatus user messageId st r5) = Some ''Unauthorized'' \<and>
         writes (updateMessageStatus user messageId st r5) = []"
    and "error (replyToMessage user messageId reply r6 r7) = Some ''Unauthorized'' \<and>
         writes (replyToMessage user messageId reply r6 r7) = []"
    and "error (getCommunicationStats user a1 a2 a3 a4 a5 a6) = Some ''Unauthorized'' \<and>
         writes (getCommunicationStats user a1 a2 a3 a4 a5 a6) = []"
    and "error (getSystemSettings user r8) = Some ''Unauthorized'' \<and> writes (getSystemSettings user r8) = []"
    and "error (updateSystemSettings user now settings r9) = Some ''Unauthorized'' \<and>
         writes (updateSystemSettings user now settings r9) = []"
    and "error (getSystemHealth user t0 t1 h1 h2 h3) = Some ''Unauthorized'' \<and>
         writes (getSystemHealth user t0 t1 h1 h2 h3) = []"
    and "error (getUserRoles user r10) = Some ''Unauthorized'' \<and> writes (getUserRoles user r10) = []"
  using assms not_admin_cases [OF assms]
  by (auto simp add: getAnnouncements_def createAnnouncement_def getAdminMessages_def
      getAdminMessage_def updateMessageStatus_def replyToMessage_def getCommunicationStats_def
      getSystemSettings_def updateSystemSettings_def getSystemHealth_def getUserRoles_def)

lemma single_query_errors:
  "error (getAnnouncements user r1) =
     (if \<not> is_admin user then Some ''Unauthorized'' else map_option pg_message (rerror r1))"
  "error (getAdminMessages user r2) =
     (if \<not> is_admin user then Some ''Unauthorized'' else map_option pg_message (rerror r2))"
  "error (getAdminMessage user messageId r3) =
     (if \<not> is_admin user then Some ''Unauthorized'' else map_option pg_message (rerror r3))"
  "error (getUserRoles user r4) =
     (if \<not> is_admin user then Some ''Unauthorized'' else map_option pg_message (rerror r4))"
  "error (updateMessageStatus user messageId st r5) =
     (if \<not> is_admin user then Some ''Unauthorized'' else map_option pg_message (rerror r5))"
  "error (updateSystemSettings user now settings r6) =
     (if \<not> is_admin user then Some ''Unauthorized'' else map_option pg_message (rerror r6))"
  "error (updateAnnouncementStats announcementId stats r7) = map_option pg_message (rerror r7)"
proof -
  show "error (getAnnouncements user r1) =
     (if \<not> is_admin user then Some ''Unauthorized'' else map_option pg_message (rerror r1))"
    by (cases r1) (simp_all add: getAnnouncements_def)
  show "error (getAdminMessages user r2) =
     (if \<not> is_admin user then Some ''Unauthorized'' else map_option pg_message (rerror r2))"
    by (cases r2) (simp_all add: getAdminMessages_def)
  show "error (getAdminMessage user messageId r3) =
     (if \<not> is_admin user then Some ''Unauthorized'' else map_option pg_message (rerror r3))"
    by (cases r3) (simp_all add: getAdminMessage_def)
  show "error (getUserRoles user r4) =
     (if \<not> is_admin user then Some ''Unauthorized'' else map_option pg_message (rerror r4))"
    by (cases r4) (simp_all add: getUserRoles_def)
  show "error (updateMessageStatus user messageId st r5) =
     (if \<not> is_admin user then Some ''Unauthorized'' else map_option pg_message (rerror r5))"
    by (cases r5) (simp_all add: updateMessageStatus_def)
  show "error (updateSystemSettings user now settings r6) =
     (if \<not> is_admin user then Some ''Unauthorized'' else map_option pg_message (rerror r6))"
    by (cases r6) (simp_all add: updateSystemSettings_def Let_def)
  show "error (updateAnnouncementStats announcementId stats r7) = map_option pg_message (rerror r7)"
    by (cases r7) (simp_all add: updateAnnouncementStats_def)
qed

lemma signed_in_errors:
  "error (sendMessageToAdmin sender message r8) =
     (if sender = None then Some ''Unauthorized'' else map_option pg_message (rerror r8))"
  "error (createAnnouncement user now input countResp r9) =
     (if \<not> is_admin user then Some ''Unauthorized'' else map_option pg_message (rerror r9))"
proof -
  show "error (sendMessageToAdmin sender message r8) =
     (if sender = None then Some ''Unauthorized'' else map_option pg_message (rerror r8))"
    by (cases sender; cases r8) (simp_all add: sendMessageToAdmin_def Let_def)
  show "error (createAnnouncement user now input countResp r9) =
     (if \<not> is_admin user then Some ''Unauthorized'' else map_option pg_message (rerror r9))"
    by (cases user; cases r9) (simp_all add: createAnnouncement_def is_admin_def Let_def)
qed

lemma data_null_on_error:
  "(data (getAnnouncements user r1) = Null) = (error (getAnnouncements user r1) \<noteq> None)"
  "(data (getAdminMessages user r2) = Null) = (error (getAdminMessages user r2) \<noteq> None)"
  "(data (getAdminMessage user messageId r3) = Null) =
     (error (getAdminMessage user messageId r3) \<noteq> None)"
  "(data (getUserRoles user r4) = Null) = (error (getUserRoles user r4) \<noteq> None)"
  "(data (getSystemSettings user r10) = Null) = (error (getSystemSettings user r10) \<noteq> None)"
  "(data (getCommunicationStats user c1 c2 c3 c4 d1 d2) = Null) =
     (error (getCommunicationStats user c1 c2 c3 c4 d1 d2) \<noteq> None)"
  "(data (getSystemHealth user startTime endTime h1 h2 probe) = Null) =
     (error (getSystemHealth user startTime endTime h1 h2 probe) \<noteq> None)"
proof -
  show "(data (getAnnouncements user r1) = Null) = (error (getAnnouncements user r1) \<noteq> None)"
    by (cases r1) (simp_all add: getAnnouncements_def)
  show "(data (getAdminMessages user r2) = Null) = (error (getAdminMessages user r2) \<noteq> None)"
    by (cases r2) (simp_all add: getAdminMessages_def)
  show "(data (getAdminMessage user messageId r3) = Null) =
     (error (getAdminMessage user messageId r3) \<noteq> None)"
    by (cases r3) (simp_all add: getAdminMessage_def)
  show "(data (getUserRoles user r4) = Null) = (error (getUserRoles user r4) \<noteq> None)"
    by (cases r4) (simp_all add: getUserRoles_def)
  show "(data (getSystemSettings user r10) = Null) = (error (getSystemSettings user r10) \<noteq> None)"
    by (cases r10) (simp_all add: getSystemSettings_def)
  show "(data (getCommunicationStats user c1 c2 c3 c4 d1 d2) = Null) =
     (error (getCommunicationStats user c1 c2 c3 c4 d1 d2) \<noteq> None)"
    by (simp add: getCommunicationStats_def)
  show "(data (getSystemHealth user startTime endTime h1 h2 probe) = Null) =
     (error (getSystemHealth user startTime endTime h1 h2 probe) \<noteq> None)"
    by (simp add: getSystemHealth_def Let_def)
qed

lemma settings_errors:
  "error (getSystemSettings user r10) =
     (if \<not> is_admin user then Some ''Unauthorized''
      else case rerror r10 of
             None \<Rightarrow> None
           | Some e \<Rightarrow> if pg_code e = ''PGRST116'' then None else Some (pg_message e))"
  by (cases r10) (simp_all add: getSystemSettings_def)

lemma settings_defaults:
  "is_admin user \<and> pg_code e = ''PGRST116'' \<longrightarrow>
     data (getSystemSettings user (Failure e)) = Val defaultSettings"
  by (simp add: getSystemSettings_def)

lemma never_failing_errors:
  "error (getCommunicationStats user c1 c2 c3 c4 d1 d2) =
     (if \<not> is_admin user then Some ''Unauthorized'' else None)"
  "error (getSystemHealth user startTime endTime h1 h2 probe) =
     (if \<not> is_admin user then Some ''Unauthorized'' else None)"
  by (simp_all add: getCommunicationStats_def getSystemHealth_def Let_def)

lemma reply_errors:
  "\<not> is_admin user \<longrightarrow>
     error (replyToMessage user messageId reply fetchResp updateResp) = Some ''Unauthorized''"
  "is_admin user \<and> rerror fetchResp \<noteq> None \<longrightarrow>
     error (replyToMessage user messageId reply fetchResp updateResp) = Some ''Message not found''"
  "is_admin user \<and> rerror fetchResp = None \<and> rerror updateResp = None \<longrightarrow>
     error (replyToMessage user messageId reply fetchResp updateResp) = None"
  by (cases fetchResp; simp add: replyToMessage_def)+

lemma valid_status_text: "valid_message_status (status_text st)"
  by (cases st) (simp_all add: valid_message_status_def)

section \<open>The badge classes\<close>

lemma dom_statusColors:
  "dom statusColors = {''registration'', ''ongoing'', ''paused'', ''completed'', ''cancelled''}"
  unfolding statusColors_def by (simp only: dom_map_of_conv_image_fst) simp

lemma dom_formatColors: "dom formatColors = {''single_elimination'', ''double_elimination''}"
  unfolding formatColors_def by (simp only: dom_map_of_conv_image_fst) simp

lemma status_lookups:
  "statusColors ''registration'' = Some ''bg-blue-500''"
  "statusColors ''ongoing'' = Some ''bg-[#00FF88]''"
  "statusColors ''paused'' = Some ''bg-yellow-500''"
  "statusColors ''completed'' = Some ''bg-gray-500''"
  "statusColors ''cancelled'' = Some ''bg-red-500''"
  by (simp_all add: statusColors_def)

lemma status_classes_distinct:
  "s1 \<in> dom statusColors \<Longrightarrow> s2 \<in> dom statusColors \<Longrightarrow> s1 \<noteq> s2 \<Longrightarrow>
     js_get statusColors s1 \<noteq> js_get statusColors s2"
proof -
  assume "s1 \<in> dom statusColors" and "s2 \<in> dom statusColors" and ne: "s1 \<noteq> s2"
  then have k1: "s1 = ''registration'' \<or> s1 = ''ongoing'' \<or> s1 = ''paused'' \<or>
      s1 = ''completed'' \<or> s1 = ''cancelled''"
    and k2: "s2 = ''registration'' \<or> s2 = ''ongoing'' \<or> s2 = ''paused'' \<or>
      s2 = ''completed'' \<or> s2 = ''cancelled''"
    by (simp_all only: dom_statusColors insert_iff empty_iff simp_thms)
  from k1 k2 ne show ?thesis
    by (elim disjE) (simp_all add: js_get_def status_lookups)
qed

lemma own_property_found: "key \<in> dom obj \<Longrightarrow> \<exists>v. js_get obj key = Some (Own v)"
  by (auto simp add: js_get_def)

text \<open>A read with an inherited key is defined too, and is not a class of the literal.\<close>

lemma inherited_property_found:
  "status_badge \<lparr>t_status = ''constructor'', t_format = ''single_elimination''\<rparr> =
     Some (Inherited ''constructor'')"
  by (simp add: status_badge_def js_get_def statusColors_def object_prototype_keys_def)

section \<open>Claims\<close>

subsection \<open>Growth figures of the dashboard\<close>

text \<open>
  Claim C8, as stated: \<open>revenue.growth\<close> is 25 whenever \<open>monthlyRevenue\<close> is positive.
  For the positive number \<open>3 * 2 ^ -1074\<close> (\<open>1.5e-323\<close>) the growth is 50: among the
  subnormal numbers the product with \<open>0.8\<close> is rounded to a whole number of steps.
\<close>

theorem growth_counterexample:
  "\<not> (\<forall>monthlyRevenue. num_pos monthlyRevenue \<longrightarrow> revenue_growth monthlyRevenue = Fin 25)"
proof
  assume "\<forall>monthlyRevenue. num_pos monthlyRevenue \<longrightarrow> revenue_growth monthlyRevenue = Fin 25"
  then have "num_pos (Fin (3 * pow2 (- 1074))) \<longrightarrow>
      revenue_growth (Fin (3 * pow2 (- 1074))) = Fin 25"
    by (rule spec)
  moreover have "num_pos (Fin (3 * pow2 (- 1074)))"
    using pow2_pos [of "- 1074"] by simp
  ultimately show False
    by (simp add: revenue_growth_subnormal)
qed

text \<open>
  Claim C8, amended. The growth percentages of the analytics dashboard do not depend on
  the data: \<open>revenue.growth\<close> is 25 whenever \<open>monthlyRevenue\<close> is a finite number of at
  least \<open>2 ^ -1022\<close> (the smallest positive normal number, about \<open>2.2e-308\<close>),
  \<open>players.growth\<close> is 43 whenever \<open>newPlayersThisMonth\<close> is positive, and both are 0
  when the quantity is 0. No other quantity enters the two expressions.
\<close>

theorem growth_is_constant_on_normal_range:
  "(pow2 (- 1022) \<le> monthlyRevenue \<and> monthlyRevenue \<le> max_double \<longrightarrow>
      revenue_growth (Fin monthlyRevenue) = Fin 25) \<and>
   (0 < newPlayersThisMonth \<longrightarrow> players_growth newPlayersThisMonth = Some 43) \<and>
   revenue_growth (Fin 0) = Fin 0 \<and> players_growth 0 = Some 0"
proof (intro conjI impI)
  assume "pow2 (- 1022) \<le> monthlyRevenue \<and> monthlyRevenue \<le> max_double"
  then show "revenue_growth (Fin monthlyRevenue) = Fin 25"
    by (intro revenue_growth_normal) simp_all
next
  assume "0 < newPlayersThisMonth"
  then have n: "(1::rat) \<le> of_nat newPlayersThisMonth" by simp
  show "players_growth newPlayersThisMonth = Some 43"
    using players_chain [OF n] \<open>0 < newPlayersThisMonth\<close>
    by (simp add: players_growth_def js_div_def js_mul_def js_sub_def)
next
  show "revenue_growth (Fin 0) = Fin 0"
    by (simp add: revenue_growth_def)
next
  show "players_growth 0 = Some 0"
    by (simp add: players_growth_def)
qed

theorem growth_is_constant_on_normal_range_witness:
  "revenue_growth (Fin 5000) = Fin 25 \<and> players_growth 12 = Some 43 \<and>
   revenue_growth (Fin 0) = Fin 0 \<and> players_growth 0 = Some 0"
proof -
  have "pow2 (- 1022) \<le> 5000"
    using tiny_le_one by linarith
  moreover have "5000 \<le> max_double"
    by (simp add: max_double_def)
  ultimately have range: "pow2 (- 1022) \<le> 5000 \<and> 5000 \<le> max_double" ..
  show ?thesis
    using growth_is_constant_on_normal_range [of 5000 12] range by simp
qed

subsection \<open>Percentages\<close>

text \<open>
  Claim C5, as stated: every percentage equals
  \<open>Math.round(100 * numerator / denominator)\<close> whenever its denominator is positive.
  The code divides first and multiplies the rounded quotient: for 23 completed tournaments
  out of 40 the quotient is just below \<open>0.575\<close>, its product with 100 just below
  \<open>57.5\<close>, and \<open>completionRate\<close> is 57, where the stated formula gives 58.
\<close>

theorem percentage_counterexample:
  "\<not> (\<forall>filteredTournaments. 0 < length filteredTournaments \<longrightarrow>
        completionRate filteredTournaments =
          Some (claimed_pct (of_nat (completedTournaments filteredTournaments))
                            (of_nat (length filteredTournaments))))"
proof
  let ?ts = "replicate 23 \<lparr>t_status = ''completed'', t_format = ''single_elimination''\<rparr> @
             replicate 17 \<lparr>t_status = ''ongoing'', t_format = ''single_elimination''\<rparr>"
  assume "\<forall>filteredTournaments. 0 < length filteredTournaments \<longrightarrow>
        completionRate filteredTournaments =
          Some (claimed_pct (of_nat (completedTournaments filteredTournaments))
                            (of_nat (length filteredTournaments)))"
  then have "0 < length ?ts \<longrightarrow>
      completionRate ?ts = Some (claimed_pct (of_nat (completedTournaments ?ts)) (of_nat (length ?ts)))"
    by (rule spec)
  moreover have "length ?ts = 40"
    by simp
  moreover have "completedTournaments ?ts = 23"
    by code_simp
  moreover have "completionRate ?ts = Some 57"
    by code_simp
  moreover have "claimed_pct 23 40 = 58"
    by code_simp
  ultimately show False
    by simp
qed

text \<open>
  Claim C5, amended: the completion rate, the dispute rate, the response rate and the
  engagement rate each equal \<open>Math.round((numerator / denominator) * 100)\<close>, the
  quotient rounded to a number before the multiplication, whenever the denominator is
  positive, and 0 whenever it is zero (or the count or the rows are missing). The result
  is always a finite number: no division by zero is evaluated.
\<close>

theorem percentages_as_computed:
  "(0 < length filteredTournaments \<longrightarrow>
      completionRate filteredTournaments =
        Some (pct (of_nat (completedTournaments filteredTournaments))
                  (of_nat (length filteredTournaments)))) \<and>
   completionRate [] = Some 0 \<and>
   (0 < length filteredMatches \<longrightarrow>
      disputeRate disputes filteredMatches =
        Some (pct (of_nat (length disputes)) (of_nat (length filteredMatches)))) \<and>
   disputeRate disputes [] = Some 0 \<and>
   (0 < messageCount \<longrightarrow>
      responseRate (Some messageCount) repliedCount =
        Some (pct (of_nat (or0 repliedCount)) (of_nat messageCount))) \<and>
   responseRate (Some 0) repliedCount = Some 0 \<and>
   responseRate None repliedCount = Some 0 \<and>
   (0 < totalRecipients announcements \<longrightarrow>
      engagementRate (Some announcements) =
        Some (pct (totalOpened announcements) (totalRecipients announcements))) \<and>
   (totalRecipients announcements = 0 \<longrightarrow> engagementRate (Some announcements) = Some 0) \<and>
   engagementRate None = Some 0"
proof (intro conjI impI)
  assume "0 < length filteredTournaments"
  then show "completionRate filteredTournaments =
        Some (pct (of_nat (completedTournaments filteredTournaments))
                  (of_nat (length filteredTournaments)))"
    by (simp add: completionRate_def percentage_of_quotient)
next
  show "completionRate [] = Some 0"
    by (simp add: completionRate_def)
next
  assume "0 < length filteredMatches"
  then show "disputeRate disputes filteredMatches =
        Some (pct (of_nat (length disputes)) (of_nat (length filteredMatches)))"
    by (simp add: disputeRate_def percentage_of_quotient)
next
  show "disputeRate disputes [] = Some 0"
    by (simp add: disputeRate_def)
next
  assume "0 < messageCount"
  then show "responseRate (Some messageCount) repliedCount =
        Some (pct (of_nat (or0 repliedCount)) (of_nat messageCount))"
    by (simp add: responseRate_def percentage_of_quotient)
next
  show "responseRate (Some 0) repliedCount = Some 0"
    by (simp add: responseRate_def)
next
  show "responseRate None repliedCount = Some 0"
    by (simp add: responseRate_def)
next
  assume pos: "0 < totalRecipients announcements"
  then have "announcements \<noteq> []"
    using totalRecipients_Nil by auto
  with pos show "engagementRate (Some announcements) =
        Some (pct (totalOpened announcements) (totalRecipients announcements))"
    by (simp add: engagementRate_def percentage_of_quotient)
next
  assume "totalRecipients announcements = 0"
  then show "engagementRate (Some announcements) = Some 0"
    by (simp add: engagementRate_def)
next
  show "engagementRate None = Some 0"
    by (simp add: engagementRate_def)
qed

theorem percentages_as_computed_witness:
  "completionRate [\<lparr>t_status = ''completed'', t_format = ''single_elimination''\<rparr>,
                   \<lparr>t_status = ''ongoing'', t_format = ''double_elimination''\<rparr>] = Some 50 \<and>
   disputeRate [1 :: nat] [10 :: nat, 11, 12, 13] = Some 25 \<and>
   responseRate (Some 8) (Some 2) = Some 25 \<and>
   engagementRate (Some [\<lparr>sr_recipients = Some 10, sr_opened = Some 4\<rparr>]) = Some 40 \<and>
   engagementRate (Some [\<lparr>sr_recipients = Some 0, sr_opened = Some 4\<rparr>]) = Some 0"
proof -
  let ?ts = "[\<lparr>t_status = ''completed'', t_format = ''single_elimination''\<rparr>,
              \<lparr>t_status = ''ongoing'', t_format = ''double_elimination''\<rparr>]"
  let ?rows = "[\<lparr>sr_recipients = Some 10, sr_opened = Some 4\<rparr>]"
  let ?none = "[\<lparr>sr_recipients = Some 0, sr_opened = Some 4\<rparr>]"
  have len: "0 < length ?ts" "0 < length [10 :: nat, 11, 12, 13]" "0 < (8 :: nat)"
    by simp_all
  have rec: "totalRecipients ?rows = 10" "totalOpened ?rows = 4" "totalRecipients ?none = 0"
    by code_simp+
  have vals: "completedTournaments ?ts = 1" "pct 1 2 = 50" "pct 1 4 = 25" "pct 2 8 = 25"
      "pct 4 10 = 40"
    by code_simp+
  note T = percentages_as_computed [of ?ts "[10 :: nat, 11, 12, 13]" "[1 :: nat]" 8 "Some 2" ?rows]
  have "completionRate ?ts = Some (pct (of_nat (completedTournaments ?ts)) (of_nat (length ?ts)))"
    using T len by blast
  then have a1: "completionRate ?ts = Some 50"
    using vals by simp
  have "disputeRate [1 :: nat] [10 :: nat, 11, 12, 13] =
      Some (pct (of_nat (length [1 :: nat])) (of_nat (length [10 :: nat, 11, 12, 13])))"
    using T len by blast
  then have a2: "disputeRate [1 :: nat] [10 :: nat, 11, 12, 13] = Some 25"
    using vals by simp
  have "responseRate (Some 8) (Some 2) = Some (pct (of_nat (or0 (Some 2))) (of_nat 8))"
    using T len by blast
  then have a3: "responseRate (Some 8) (Some 2) = Some 25"
    using vals by (simp add: or0_def)
  have pos: "0 < totalRecipients ?rows"
    using rec by simp
  have "engagementRate (Some ?rows) = Some (pct (totalOpened ?rows) (totalRecipients ?rows))"
    using T pos by blast
  then have a4: "engagementRate (Some ?rows) = Some 40"
    using rec vals by simp
  have b: "engagementRate (Some ?none) = Some 0"
    using percentages_as_computed [of ?ts "[10 :: nat, 11, 12, 13]" "[1 :: nat]" 8 "Some 2" ?none] rec
    by blast
  show ?thesis
    using a1 a2 a3 a4 b by blast
qed

subsection \<open>Creating an announcement\<close>

text \<open>
  Claim C1. For an admin caller, \<open>createAnnouncement\<close> sends one insert. When the input
  carries a \<open>scheduled_at\<close> (a non-empty text; the code does not look at the date it
  names), the row has status \<open>scheduled\<close> and \<open>sent_at = null\<close>. When the input carries
  no \<open>scheduled_at\<close>, the row has status \<open>draft\<close> and \<open>sent_at\<close> is the current time.
\<close>

theorem createAnnouncement_status:
  assumes "is_admin user"
  shows "\<exists>row. writes (createAnnouncement user now input countResp insertResp) = [Insert_announcement row] \<and>
           (\<forall>s. in_scheduled_at input = Some s \<and> s \<noteq> [] \<longrightarrow>
                 status row = ''scheduled'' \<and> sent_at row = None \<and> scheduled_at row = Some s) \<and>
           (in_scheduled_at input = None \<longrightarrow>
                 status row = ''draft'' \<and> sent_at row = Some now \<and> scheduled_at row = None)"
proof -
  obtain u where u: "user = Some u" "u_role u = ''admin''"
    using is_admin_Some [OF assms] by blast
  show ?thesis
    by (cases insertResp) (simp_all add: createAnnouncement_def u truthy_def Let_def)
qed

theorem createAnnouncement_status_witness:
  "(\<exists>row. writes (createAnnouncement (Some \<lparr>u_id = ''u1'', u_role = ''admin''\<rparr>)
               ''2025-01-01T00:00:00.000Z''
               \<lparr>in_title = ''Cup'', in_content = ''Starts soon'', in_type = Ty_tournament,
                in_target = Tg_all, in_scheduled_at = Some ''2030-01-01T00:00:00.000Z''\<rparr>
               (Success () (Some 12)) (Success (1 :: nat) None))
          = [Insert_announcement row] \<and>
          status row = ''scheduled'' \<and> sent_at row = None) \<and>
   (\<exists>row. writes (createAnnouncement (Some \<lparr>u_id = ''u1'', u_role = ''admin''\<rparr>)
               ''2025-01-01T00:00:00.000Z''
               \<lparr>in_title = ''Cup'', in_content = ''Starts soon'', in_type = Ty_tournament,
                in_target = Tg_all, in_scheduled_at = None\<rparr>
               (Success () (Some 12)) (Success (1 :: nat) None))
          = [Insert_announcement row] \<and>
          status row = ''draft'' \<and> sent_at row = Some ''2025-01-01T00:00:00.000Z'')"
proof -
  have adm: "is_admin (Some \<lparr>u_id = ''u1'', u_role = ''admin''\<rparr>)"
    by (simp add: is_admin_def)
  have later: "\<exists>row. writes (createAnnouncement (Some \<lparr>u_id = ''u1'', u_role = ''admin''\<rparr>)
               ''2025-01-01T00:00:00.000Z''
               \<lparr>in_title = ''Cup'', in_content = ''Starts soon'', in_type = Ty_tournament,
                in_target = Tg_all, in_scheduled_at = Some ''2030-01-01T00:00:00.000Z''\<rparr>
               (Success () (Some 12)) (Success (1 :: nat) None))
          = [Insert_announcement row] \<and>
          status row = ''scheduled'' \<and> sent_at row = None"
    using createAnnouncement_status [OF adm, of "''2025-01-01T00:00:00.000Z''"
      "\<lparr>in_title = ''Cup'', in_content = ''Starts soon'', in_type = Ty_tournament,
        in_target = Tg_all, in_scheduled_at = Some ''2030-01-01T00:00:00.000Z''\<rparr>"
      "Success () (Some 12)" "Success (1 :: nat) None"]
    by auto
  have at_once: "\<exists>row. writes (createAnnouncement (Some \<lparr>u_id = ''u1'', u_role = ''admin''\<rparr>)
               ''2025-01-01T00:00:00.000Z''
               \<lparr>in_title = ''Cup'', in_content = ''Starts soon'', in_type = Ty_tournament,
                in_target = Tg_all, in_scheduled_at = None\<rparr>
               (Success () (Some 12)) (Success (1 :: nat) None))
          = [Insert_announcement row] \<and>
          status row = ''draft'' \<and> sent_at row = Some ''2025-01-01T00:00:00.000Z''"
    using createAnnouncement_status [OF adm, of "''2025-01-01T00:00:00.000Z''"
      "\<lparr>in_title = ''Cup'', in_content = ''Starts soon'', in_type = Ty_tournament,
        in_target = Tg_all, in_scheduled_at = None\<rparr>"
      "Success () (Some 12)" "Success (1 :: nat) None"]
    by auto
  show ?thesis
    using later at_once by blast
qed

subsection \<open>The authorization guard\<close>

text \<open>
  Claim C2. Every operation of the announcements, admin-messages and system-settings
  modules answers a caller who is not an admin with the error \<open>Unauthorized\<close> and writes
  nothing. Eleven of the twelve operations do (\<open>non_admin_rejected\<close>).
  \<open>updateAnnouncementStats\<close> does not: it never asks who the caller is, so for any
  caller, signed in or not, it sends the update and reports the database's answer. Here
  the database accepts the update of announcement \<open>a1\<close>, and the action returns
  \<open>error = null\<close> after one write.
\<close>

theorem updateAnnouncementStats_unguarded:
  "error (updateAnnouncementStats ''a1'' \<lparr>st_opened = Some 5, st_clicked = None\<rparr> (Success () None)) = None \<and>
   writes (updateAnnouncementStats ''a1'' \<lparr>st_opened = Some 5, st_clicked = None\<rparr> (Success () None)) =
     [Update_announcement ''a1'' \<lparr>st_opened = Some 5, st_clicked = None\<rparr>]"
  by (simp add: updateAnnouncementStats_def)

subsection \<open>The error convention\<close>

text \<open>
  Claim C3, as stated: whenever a request of an action fails, the action returns that
  request's error message. \<open>getCommunicationStats\<close> reads only the counts and the rows of
  its six responses: with every request failing, an admin still gets \<open>error = null\<close>.
\<close>

theorem error_convention_counterexample:
  "\<not> (\<forall>user announcementsCount messagesCount unreadCount repliedCount repliedData sentAnnouncements e.
        is_admin user \<and> rerror messagesCount = Some e \<longrightarrow>
        error (getCommunicationStats user announcementsCount messagesCount unreadCount repliedCount
                 repliedData sentAnnouncements) = Some (pg_message e))"
proof
  let ?down = "\<lparr>pg_message = ''connection refused'', pg_code = ''08006''\<rparr>"
  let ?admin = "Some \<lparr>u_id = ''u1'', u_role = ''admin''\<rparr>"
  assume "\<forall>user announcementsCount messagesCount unreadCount repliedCount repliedData sentAnnouncements e.
        is_admin user \<and> rerror messagesCount = Some e \<longrightarrow>
        error (getCommunicationStats user announcementsCount messagesCount unreadCount repliedCount
                 repliedData sentAnnouncements) = Some (pg_message e)"
  then have "is_admin ?admin \<and> rerror (Failure ?down :: unit response) = Some ?down \<longrightarrow>
      error (getCommunicationStats ?admin (Failure ?down) (Failure ?down) (Failure ?down)
               (Failure ?down) (Failure ?down) (Failure ?down)) = Some (pg_message ?down)"
    by blast
  then show False
    by (simp add: is_admin_def getCommunicationStats_def)
qed

text \<open>
  Claim C3, amended. The \<open>error\<close> field of every action is a text or \<open>null\<close>, as follows.
  A caller who fails the guard of an action gets \<open>Unauthorized\<close>; the guard asks for an
  admin, and for any signed-in user in \<open>sendMessageToAdmin\<close>. For a caller who passes
  the guard (an admin, in \<open>updateAnnouncementStats\<close> too), the actions with one request
  (\<open>getAnnouncements\<close>, \<open>getAdminMessages\<close>, \<open>getAdminMessage\<close>, \<open>getUserRoles\<close>,
  \<open>updateMessageStatus\<close>, \<open>updateSystemSettings\<close>, \<open>updateAnnouncementStats\<close>,
  \<open>sendMessageToAdmin\<close>) return the message of a failed request and \<open>null\<close> after a
  success; \<open>createAnnouncement\<close> does so for its insert, whatever its count request
  answered; \<open>getSystemSettings\<close> does so except that a failure with the code
  \<open>PGRST116\<close> gives the default settings with \<open>error = null\<close>; \<open>getCommunicationStats\<close>
  and \<open>getSystemHealth\<close> always return \<open>null\<close>; \<open>replyToMessage\<close> returns
  \<open>Message not found\<close> when its fetch fails and \<open>null\<close> when its fetch and its update
  succeed. In every action whose result has a \<open>data\<close> field where \<open>error\<close> can be set
  (the seven readers), \<open>data\<close> is \<open>null\<close> exactly when \<open>error\<close> is set, for every caller.
\<close>

theorem error_convention:
  "(\<not> is_admin user \<longrightarrow>
      error (replyToMessage user messageId reply fetchResp updateResp) = Some ''Unauthorized'') \<and>
   (is_admin user \<and> rerror fetchResp \<noteq> None \<longrightarrow>
      error (replyToMessage user messageId reply fetchResp updateResp) = Some ''Message not found'') \<and>
   (is_admin user \<and> rerror fetchResp = None \<and> rerror updateResp = None \<longrightarrow>
      error (replyToMessage user messageId reply fetchResp updateResp) = None) \<and>
   (is_admin user \<and> pg_code e = ''PGRST116'' \<longrightarrow>
      data (getSystemSettings user (Failure e)) = Val defaultSettings) \<and>
   error (getAnnouncements user r1) =
     (if \<not> is_admin user then Some ''Unauthorized'' else map_option pg_message (rerror r1)) \<and>
   error (getAdminMessages user r2) =
     (if \<not> is_admin user then Some ''Unauthorized'' else map_option pg_message (rerror r2)) \<and>
   error (getAdminMessage user messageId r3) =
     (if \<not> is_admin user then Some ''Unauthorized'' else map_option pg_message (rerror r3)) \<and>
   error (getUserRoles user r4) =
     (if \<not> is_admin user then Some ''Unauthorized'' else map_option pg_message (rerror r4)) \<and>
   error (updateMessageStatus user messageId st r5) =
     (if \<not> is_admin user then Some ''Unauthorized'' else map_option pg_message (rerror r5)) \<and>
   error (updateSystemSettings user now settings r6) =
     (if \<not> is_admin user then Some ''Unauthorized'' else map_option pg_message (rerror r6)) \<and>
   error (updateAnnouncementStats announcementId stats r7) = map_option pg_message (rerror r7) \<and>
   error (sendMessageToAdmin sender message r8) =
     (if sender = None then Some ''Unauthorized'' else map_option pg_message (rerror r8)) \<and>
   error (createAnnouncement user now input countResp r9) =
     (if \<not> is_admin user then Some ''Unauthorized'' else map_option pg_message (rerror r9)) \<and>
   error (getSystemSettings user r10) =
     (if \<not> is_admin user then Some ''Unauthorized''
      else case rerror r10 of
             None \<Rightarrow> None
           | Some e \<Rightarrow> if pg_code e = ''PGRST116'' then None else Some (pg_message e)) \<and>
   error (getCommunicationStats user c1 c2 c3 c4 d1 d2) =
     (if \<not> is_admin user then Some ''Unauthorized'' else None) \<and>
   error (getSystemHealth user startTime endTime h1 h2 probe) =
     (if \<not> is_admin user then Some ''Unauthorized'' else None) \<and>
   (data (getAnnouncements user r1) = Null) = (error (getAnnouncements user r1) \<noteq> None) \<and>
   (data (getAdminMessages user r2) = Null) = (error (getAdminMessages user r2) \<noteq> None) \<and>
   (data (getAdminMessage user messageId r3) = Null) =
     (error (getAdminMessage user messageId r3) \<noteq> None) \<and>
   (data (getUserRoles user r4) = Null) = (error (getUserRoles user r4) \<noteq> None) \<and>
   (data (getSystemSettings user r10) = Null) = (error (getSystemSettings user r10) \<noteq> None) \<and>
   (data (getCommunicationStats user c1 c2 c3 c4 d1 d2) = Null) =
     (error (getCommunicationStats user c1 c2 c3 c4 d1 d2) \<noteq> None) \<and>
   (data (getSystemHealth user startTime endTime h1 h2 probe) = Null) =
     (error (getSystemHealth user startTime endTime h1 h2 probe) \<noteq> None)"
  by (intro conjI reply_errors settings_defaults single_query_errors signed_in_errors
      settings_errors never_failing_errors data_null_on_error)

theorem error_convention_witness:
  "error (replyToMessage None ''m1'' ''Thanks'' (Success (7 :: nat) None) (Success () None)) =
     Some ''Unauthorized'' \<and>
   error (replyToMessage (Some \<lparr>u_id = ''u1'', u_role = ''admin''\<rparr>) ''m1'' ''Thanks''
       (Failure \<lparr>pg_message = ''no rows'', pg_code = ''PGRST116''\<rparr> :: nat response)
       (Success () None)) = Some ''Message not found'' \<and>
   error (replyToMessage (Some \<lparr>u_id = ''u1'', u_role = ''admin''\<rparr>) ''m1'' ''Thanks''
       (Success (7 :: nat) None) (Success () None)) = None \<and>
   data (getSystemSettings (Some \<lparr>u_id = ''u1'', u_role = ''admin''\<rparr>)
       (Failure \<lparr>pg_message = ''no rows'', pg_code = ''PGRST116''\<rparr>)) = Val defaultSettings \<and>
   error (getAnnouncements (Some \<lparr>u_id = ''u1'', u_role = ''admin''\<rparr>)
       (Failure \<lparr>pg_message = ''timeout'', pg_code = ''57014''\<rparr> :: nat list response)) =
     Some ''timeout''"
proof -
  let ?admin = "Some \<lparr>u_id = ''u1'', u_role = ''admin''\<rparr>"
  let ?timeout = "Failure \<lparr>pg_message = ''timeout'', pg_code = ''57014''\<rparr> :: nat list response"
  let ?norows = "\<lparr>pg_message = ''no rows'', pg_code = ''PGRST116''\<rparr>"
  have adm: "is_admin ?admin" and anon: "\<not> is_admin None"
    by (simp_all add: is_admin_def)
  note refused = error_convention [where user = None
      and fetchResp = "Success (7 :: nat) None" and updateResp = "Success () None"
      and messageId = "''m1''" and reply = "''Thanks''"]
  note failed = error_convention [where user = ?admin and ?r1.0 = ?timeout and e = ?norows
      and fetchResp = "Failure ?norows :: nat response" and updateResp = "Success () None"
      and messageId = "''m1''" and reply = "''Thanks''"]
  note passed = error_convention [where user = ?admin
      and fetchResp = "Success (7 :: nat) None" and updateResp = "Success () None"
      and messageId = "''m1''" and reply = "''Thanks''"]
  have a: "error (replyToMessage None ''m1'' ''Thanks'' (Success (7 :: nat) None) (Success () None)) =
      Some ''Unauthorized''"
    using refused [THEN conjunct1] anon by simp
  have b: "error (replyToMessage ?admin ''m1'' ''Thanks'' (Failure ?norows :: nat response)
       (Success () None)) = Some ''Message not found''"
    using failed [THEN conjunct2, THEN conjunct1] adm by simp
  have c: "error (replyToMessage ?admin ''m1'' ''Thanks'' (Success (7 :: nat) None) (Success () None)) = None"
    using passed [THEN conjunct2, THEN conjunct2, THEN conjunct1] adm by simp
  have d: "data (getSystemSettings ?admin (Failure ?norows)) = Val defaultSettings"
    using failed [THEN conjunct2, THEN conjunct2, THEN conjunct2, THEN conjunct1] adm by simp
  have e: "error (getAnnouncements ?admin ?timeout) = Some ''timeout''"
    using failed [THEN conjunct2, THEN conjunct2, THEN conjunct2, THEN conjunct2, THEN conjunct1] adm
    by simp
  show ?thesis
    using a b c d e by blast
qed

subsection \<open>The status of an admin message\<close>

text \<open>
  Claim C4. Every write to an admin message by \<open>updateMessageStatus\<close>,
  \<open>sendMessageToAdmin\<close> or \<open>replyToMessage\<close> gives it a status among \<open>unread\<close>, \<open>read\<close>
  and \<open>replied\<close>: \<open>updateMessageStatus\<close> writes the text of its argument, whose type
  has these three values only, \<open>sendMessageToAdmin\<close> always inserts \<open>unread\<close>, and
  \<open>replyToMessage\<close> only sets \<open>replied\<close>.
\<close>

theorem message_status_stays_valid:
  "(\<forall>w \<in> set (writes (updateMessageStatus user messageId st resp)).
       message_status_written w = Some (status_text st) \<and> valid_message_status (status_text st)) \<and>
   (\<forall>w \<in> set (writes (sendMessageToAdmin sender message insertResp)).
       message_status_written w = Some ''unread'' \<and> valid_message_status ''unread'') \<and>
   (\<forall>w \<in> set (writes (replyToMessage user messageId reply fetchResp updateResp)).
       message_status_written w = Some ''replied'' \<and> valid_message_status ''replied'')"
proof (intro conjI)
  show "\<forall>w \<in> set (writes (updateMessageStatus user messageId st resp)).
       message_status_written w = Some (status_text st) \<and> valid_message_status (status_text st)"
    by (cases resp) (simp_all add: updateMessageStatus_def valid_status_text)
  show "\<forall>w \<in> set (writes (sendMessageToAdmin sender message insertResp)).
       message_status_written w = Some ''unread'' \<and> valid_message_status ''unread''"
    by (cases sender; cases insertResp)
      (simp_all add: sendMessageToAdmin_def Let_def valid_message_status_def)
  show "\<forall>w \<in> set (writes (replyToMessage user messageId reply fetchResp updateResp)).
       message_status_written w = Some ''replied'' \<and> valid_message_status ''replied''"
    by (cases fetchResp) (simp_all add: replyToMessage_def valid_message_status_def)
qed

theorem message_status_stays_valid_witness:
  "message_status_written (Update_message_status ''m1'' (status_text Read)) = Some ''read'' \<and>
   valid_message_status ''read'' \<and>
   message_status_written
     (Insert_message \<lparr>mr_user_id = ''u2'', mr_subject = ''Help'', mr_content = ''Score is wrong'',
        mr_priority = P_medium, mr_status = ''unread''\<rparr>) = Some ''unread'' \<and>
   message_status_written (Update_message_status ''m1'' ''replied'') = Some ''replied''"
proof -
  let ?admin = "Some \<lparr>u_id = ''u1'', u_role = ''admin''\<rparr>"
  let ?player = "Some \<lparr>u_id = ''u2'', u_role = ''player''\<rparr>"
  let ?msg = "\<lparr>mi_subject = ''Help'', mi_content = ''Score is wrong'', mi_priority = None\<rparr>"
  note T = message_status_stays_valid [of ?admin "''m1''" Read "Success () None" ?player ?msg
      "Success (1 :: nat) None" "''Thanks''" "Success (2 :: nat) None" "Success () None"]
  have w1: "Update_message_status ''m1'' (status_text Read) \<in>
      set (writes (updateMessageStatus ?admin ''m1'' Read (Success () None)))"
    by (simp add: updateMessageStatus_def is_admin_def)
  have w2: "Insert_message \<lparr>mr_user_id = ''u2'', mr_subject = ''Help'', mr_content = ''Score is wrong'',
        mr_priority = P_medium, mr_status = ''unread''\<rparr> \<in>
      set (writes (sendMessageToAdmin ?player ?msg (Success (1 :: nat) None)))"
    by (simp add: sendMessageToAdmin_def Let_def)
  have w3: "Update_message_status ''m1'' ''replied'' \<in>
      set (writes (replyToMessage ?admin ''m1'' ''Thanks'' (Success (2 :: nat) None) (Success () None)))"
    by (simp add: replyToMessage_def is_admin_def)
  have a: "message_status_written (Update_message_status ''m1'' (status_text Read)) = Some (status_text Read) \<and>
      valid_message_status (status_text Read)"
    using T [THEN conjunct1] w1 by blast
  have b: "message_status_written
     (Insert_message \<lparr>mr_user_id = ''u2'', mr_subject = ''Help'', mr_content = ''Score is wrong'',
        mr_priority = P_medium, mr_status = ''unread''\<rparr>) = Some ''unread''"
    using T [THEN conjunct2, THEN conjunct1] w2 by blast
  have c: "message_status_written (Update_message_status ''m1'' ''replied'') = Some ''replied''"
    using T [THEN conjunct2, THEN conjunct2] w3 by blast
  show ?thesis
    using a b c by simp
qed

subsection \<open>The badges of the tournament header\<close>

text \<open>
  Claim C6. For every tournament whose status is \<open>registration\<close>, \<open>ongoing\<close>, \<open>paused\<close>,
  \<open>completed\<close> or \<open>cancelled\<close> the read of \<open>statusColors\<close> finds a class of the literal,
  for every tournament whose format is \<open>single_elimination\<close> or \<open>double_elimination\<close> the
  read of \<open>formatColors\<close> does, and two tournaments with different statuses among the
  five get different classes. These values are exactly the keys that the two literals
  list (\<open>dom_statusColors\<close>, \<open>dom_formatColors\<close>).
\<close>

theorem badge_colors_total:
  "(t_status t \<in> {''registration'', ''ongoing'', ''paused'', ''completed'', ''cancelled''} \<longrightarrow>
      (\<exists>c. status_badge t = Some (Own c))) \<and>
   (t_format t \<in> {''single_elimination'', ''double_elimination''} \<longrightarrow>
      (\<exists>c. format_badge t = Some (Own c))) \<and>
   (t_status t \<in> {''registration'', ''ongoing'', ''paused'', ''completed'', ''cancelled''} \<and>
    t_status t' \<in> {''registration'', ''ongoing'', ''paused'', ''completed'', ''cancelled''} \<and>
    t_status t \<noteq> t_status t' \<longrightarrow>
      status_badge t \<noteq> status_badge t')"
proof (intro conjI impI)
  assume "t_status t \<in> {''registration'', ''ongoing'', ''paused'', ''completed'', ''cancelled''}"
  then have "t_status t \<in> dom statusColors"
    by (simp only: dom_statusColors)
  then show "\<exists>c. status_badge t = Some (Own c)"
    unfolding status_badge_def by (rule own_property_found)
next
  assume "t_format t \<in> {''single_elimination'', ''double_elimination''}"
  then have "t_format t \<in> dom formatColors"
    by (simp only: dom_formatColors)
  then show "\<exists>c. format_badge t = Some (Own c)"
    unfolding format_badge_def by (rule own_property_found)
next
  assume "t_status t \<in> {''registration'', ''ongoing'', ''paused'', ''completed'', ''cancelled''} \<and>
    t_status t' \<in> {''registration'', ''ongoing'', ''paused'', ''completed'', ''cancelled''} \<and>
    t_status t \<noteq> t_status t'"
  then have m: "t_status t \<in> {''registration'', ''ongoing'', ''paused'', ''completed'', ''cancelled''}"
    and m': "t_status t' \<in> {''registration'', ''ongoing'', ''paused'', ''completed'', ''cancelled''}"
    and ne: "t_status t \<noteq> t_status t'"
    by blast+
  have "t_status t \<in> dom statusColors" and "t_status t' \<in> dom statusColors"
    using m m' by (simp_all only: dom_statusColors)
  then show "status_badge t \<noteq> status_badge t'"
    unfolding status_badge_def using ne by (rule status_classes_distinct)
qed

theorem badge_colors_total_witness:
  "status_badge \<lparr>t_status = ''paused'', t_format = ''double_elimination''\<rparr> =
     Some (Own ''bg-yellow-500'') \<and>
   format_badge \<lparr>t_status = ''paused'', t_format = ''double_elimination''\<rparr> =
     Some (Own ''bg-purple-500'') \<and>
   status_badge \<lparr>t_status = ''paused'', t_format = ''double_elimination''\<rparr> \<noteq>
     status_badge \<lparr>t_status = ''ongoing'', t_format = ''double_elimination''\<rparr>"
proof -
  let ?t = "\<lparr>t_status = ''paused'', t_format = ''double_elimination''\<rparr>"
  let ?t' = "\<lparr>t_status = ''ongoing'', t_format = ''double_elimination''\<rparr>"
  note T = badge_colors_total [of ?t ?t']
  obtain c where "status_badge ?t = Some (Own c)"
    using T [THEN conjunct1] by auto
  then have a: "status_badge ?t = Some (Own ''bg-yellow-500'')"
    by (simp add: status_badge_def js_get_def status_lookups)
  obtain c' where "format_badge ?t = Some (Own c')"
    using T [THEN conjunct2, THEN conjunct1] by auto
  then have b: "format_badge ?t = Some (Own ''bg-purple-500'')"
    by (simp add: format_badge_def js_get_def formatColors_def)
  have c: "status_badge ?t \<noteq> status_badge ?t'"
    using T [THEN conjunct2, THEN conjunct2] by simp
  show ?thesis
    using a b c by blast
qed

subsection \<open>Replying to a message\<close>

text \<open>
  Claim C9. \<open>replyToMessage\<close> does not store the reply: two calls that differ in the
  reply text only return the same result and send the same writes. For an admin, the
  only write sets the status of the message to \<open>replied\<close>; when the message is not
  found the action returns \<open>Message not found\<close> and writes nothing.
\<close>

theorem reply_text_ignored:
  "replyToMessage user messageId reply1 fetchResp updateResp =
     replyToMessage user messageId reply2 fetchResp updateResp \<and>
   (is_admin user \<longrightarrow>
      (case fetchResp of
         Failure fetchError \<Rightarrow>
           error (replyToMessage user messageId reply1 fetchResp updateResp) = Some ''Message not found'' \<and>
           writes (replyToMessage user messageId reply1 fetchResp updateResp) = []
       | Success originalMessage c \<Rightarrow>
           error (replyToMessage user messageId reply1 fetchResp updateResp) = None \<and>
           writes (replyToMessage user messageId reply1 fetchResp updateResp) =
             [Update_message_status messageId ''replied'']))"
  by (cases fetchResp) (simp_all add: replyToMessage_def)

theorem reply_text_ignored_witness:
  "replyToMessage (Some \<lparr>u_id = ''u1'', u_role = ''admin''\<rparr>) ''m1'' ''Thank you'' (Success ''row'' None) (Success () None) =
     replyToMessage (Some \<lparr>u_id = ''u1'', u_role = ''admin''\<rparr>) ''m1'' ''Go away'' (Success ''row'' None) (Success () None) \<and>
   writes (replyToMessage (Some \<lparr>u_id = ''u1'', u_role = ''admin''\<rparr>) ''m1'' ''Thank you'' (Success ''row'' None) (Success () None)) =
     [Update_message_status ''m1'' ''replied''] \<and>
   error (replyToMessage (Some \<lparr>u_id = ''u1'', u_role = ''admin''\<rparr>) ''m1'' ''Thank you''
      (Failure \<lparr>pg_message = ''no rows'', pg_code = ''PGRST116''\<rparr> :: string response) (Success () None)) =
     Some ''Message not found'' \<and>
   writes (replyToMessage (Some \<lparr>u_id = ''u1'', u_role = ''admin''\<rparr>) ''m1'' ''Thank you''
      (Failure \<lparr>pg_message = ''no rows'', pg_code = ''PGRST116''\<rparr> :: string response) (Success () None)) = []"
proof -
  let ?admin = "Some \<lparr>u_id = ''u1'', u_role = ''admin''\<rparr>"
  have adm: "is_admin ?admin"
    by (simp add: is_admin_def)
  have ok: "replyToMessage ?admin ''m1'' ''Thank you'' (Success ''row'' None) (Success () None) =
      replyToMessage ?admin ''m1'' ''Go away'' (Success ''row'' None) (Success () None) \<and>
    writes (replyToMessage ?admin ''m1'' ''Thank you'' (Success ''row'' None) (Success () None)) =
      [Update_message_status ''m1'' ''replied'']"
    using conjunct1 [OF reply_text_ignored [of ?admin "''m1''" "''Thank you''" "Success ''row'' None"
          "Success () None" "''Go away''"]]
      mp [OF conjunct2 [OF reply_text_ignored [of ?admin "''m1''" "''Thank you''" "Success ''row'' None"
          "Success () None" "''Go away''"]] adm]
    by simp
  have missing: "error (replyToMessage ?admin ''m1'' ''Thank you''
        (Failure \<lparr>pg_message = ''no rows'', pg_code = ''PGRST116''\<rparr> :: string response) (Success () None)) =
      Some ''Message not found'' \<and>
    writes (replyToMessage ?admin ''m1'' ''Thank you''
        (Failure \<lparr>pg_message = ''no rows'', pg_code = ''PGRST116''\<rparr> :: string response) (Success () None)) = []"
    using mp [OF conjunct2 [OF reply_text_ignored [of ?admin "''m1''" "''Thank you''"
        "Failure \<lparr>pg_message = ''no rows'', pg_code = ''PGRST116''\<rparr> :: string response"
        "Success () None" "''Go away''"]] adm]
    by simp
  show ?thesis
    using ok missing by blast
qed

subsection \<open>System health\<close>

text \<open>
  Claim C10. For an admin, \<open>getSystemHealth\<close> returns \<open>uptime = 99.9\<close>,
  \<open>storage_usage = 65\<close>, \<open>memory_usage = 45\<close> and \<open>cpu_usage = 23\<close> whatever the
  responses and the clock. The database status is \<open>connected\<close> exactly when the probe
  succeeded and took at most 1000 ms; the overall status is \<open>healthy\<close> exactly then and
  \<open>critical\<close> otherwise, never \<open>warning\<close>.
\<close>

theorem system_health_fixed:
  assumes "is_admin user"
  shows "\<exists>h. data (getSystemHealth user startTime endTime activeUsers concurrentTournaments probe) = Val h \<and>
           error (getSystemHealth user startTime endTime activeUsers concurrentTournaments probe) = None \<and>
           uptime h = lit (999 / 10) \<and> storage_usage h = 65 \<and> memory_usage h = 45 \<and> cpu_usage h = 23 \<and>
           (database_status h = Connected) = (rerror probe = None \<and> endTime - startTime \<le> 1000) \<and>
           (health h = Healthy) = (database_status h = Connected) \<and>
           (health h = Critical) = (database_status h \<noteq> Connected) \<and>
           health h \<noteq> Warning"
  using assms by (cases probe) (simp_all add: getSystemHealth_def Let_def)

theorem system_health_fixed_witness:
  "\<exists>h. data (getSystemHealth (Some \<lparr>u_id = ''u1'', u_role = ''admin''\<rparr>) 5000 6200
              (Success () (Some 3)) (Success () (Some 1)) (Success [''p1''] None)) = Val h \<and>
        uptime h = lit (999 / 10) \<and> storage_usage h = 65 \<and> memory_usage h = 45 \<and> cpu_usage h = 23 \<and>
        database_status h = Slow \<and> health h = Critical"
proof -
  let ?admin = "Some \<lparr>u_id = ''u1'', u_role = ''admin''\<rparr>"
  have adm: "is_admin ?admin"
    by (simp add: is_admin_def)
  obtain h where h: "data (getSystemHealth ?admin 5000 6200
              (Success () (Some 3)) (Success () (Some 1)) (Success [''p1''] None)) = Val h"
      "uptime h = lit (999 / 10)" "storage_usage h = 65" "memory_usage h = 45" "cpu_usage h = 23"
      "(health h = Critical) = (database_status h \<noteq> Connected)"
    using system_health_fixed [OF adm, of 5000 6200 "Success () (Some 3)" "Success () (Some 1)"
        "Success [''p1''] None"]
    by blast
  have "database_status h = Slow"
    using h(1) by (auto simp add: getSystemHealth_def adm Let_def)
  then show ?thesis
    using h by auto
qed


end
